theory Spec2Isabelle
  imports Complex_Main "HOL-Library.Word" "HOL-Library.AList" "HOL-Library.Sublist"
begin

section \<open>The NxLib tree, commands and errors\<close>

text \<open>
  The driver \<^verbatim>\<open>ensenso.cpp\<close> talks to the camera through the vendor library NxLib: a
  tree of items addressed by paths, and commands that are executed with a tree of
  parameters and leave a tree of results. An \<^verbatim>\<open>NxLibItem\<close> is a reference into that
  tree, so it is a path here. A C++ \<^verbatim>\<open>int\<close> and \<^verbatim>\<open>unsigned int\<close> are 32-bit words (signed
  comparisons are written \<open><s\<close>), a \<^verbatim>\<open>double\<close> is a real number: rounding is not modelled,
  the development is about which operation is applied to which value.
\<close>

datatype key = Name string | Idx nat

type_synonym path = "key list"

type_synonym vec3 = "real \<times> real \<times> real"

type_synonym mat3 = "vec3 \<times> vec3 \<times> vec3"

record Isometry3d =
  rotation :: mat3
  translation :: vec3

datatype nxvalue =
    NxBool bool
  | NxInt "32 word"
  | NxDouble real
  | NxString string
  | NxPose Isometry3d

type_synonym nxtree = "(path \<times> nxvalue) list"

datatype error = NxError | EmptyOptional

record NxLibCommand =
  command_name :: string
  parameters :: nxtree

text \<open>What the driver does to the device: writes to the tree, erasures, executed commands.\<close>

datatype event =
    SetItem path nxvalue
  | EraseItem path
  | Execute string nxtree

record world =
  root :: nxtree
  issued :: "event list"

text \<open>Whether an issued event is the execution of the command named \<open>n\<close>.\<close>

fun is_command :: "string \<Rightarrow> event \<Rightarrow> bool" where
  "is_command n (Execute m p) = (m = n)"
| "is_command n (SetItem p v) = False"
| "is_command n (EraseItem p) = False"

text \<open>
  The command executor is the vendor's: it is a parameter of every operation. Given the
  command's name, its parameters and the tree, it yields the result tree or an error,
  and the tree it leaves behind.
\<close>

type_synonym executor = "string \<Rightarrow> nxtree \<Rightarrow> nxtree \<Rightarrow> (error + nxtree) \<times> nxtree"

type_synonym 'a nx = "world \<Rightarrow> (error + 'a) \<times> world"

definition returnM :: "'a \<Rightarrow> 'a nx" where
  "returnM x = (\<lambda>w. (Inr x, w))"

definition throwM :: "error \<Rightarrow> 'a nx" where
  "throwM e = (\<lambda>w. (Inl e, w))"

definition bindM :: "'a nx \<Rightarrow> ('a \<Rightarrow> 'b nx) \<Rightarrow> 'b nx" where
  "bindM m f = (\<lambda>w. case m w of (Inl e, w') \<Rightarrow> (Inl e, w') | (Inr x, w') \<Rightarrow> f x w')"

definition thenM :: "'a nx \<Rightarrow> 'b nx \<Rightarrow> 'b nx" where
  "thenM m n = bindM m (\<lambda>_. n)"

definition whenM :: "bool \<Rightarrow> unit nx \<Rightarrow> unit nx" where
  "whenM b m = (if b then m else returnM ())"

text \<open>\<^verbatim>\<open>try { m } catch (NxError const &) { h }\<close>\<close>

definition catchNxError :: "'a nx \<Rightarrow> 'a nx \<Rightarrow> 'a nx" where
  "catchNxError m h = (\<lambda>w. case m w of (Inl NxError, w') \<Rightarrow> h w' | r \<Rightarrow> r)"

fun repeatM :: "nat \<Rightarrow> unit nx \<Rightarrow> unit nx" where
  "repeatM 0 m = returnM ()"
| "repeatM (Suc n) m = thenM m (repeatM n m)"

subsection \<open>Item names of the vendor's header\<close>

definition itmSerialNumber :: string where "itmSerialNumber = ''SerialNumber''"
definition itmParameters :: string where "itmParameters = ''Parameters''"
definition itmCapture :: string where "itmCapture = ''Capture''"
definition itmFlexView :: string where "itmFlexView = ''FlexView''"
definition itmFrontLight :: string where "itmFrontLight = ''FrontLight''"
definition itmProjector :: string where "itmProjector = ''Projector''"
definition itmCameras :: string where "itmCameras = ''Cameras''"
definition itmTimeout :: string where "itmTimeout = ''Timeout''"
definition itmTriggered :: string where "itmTriggered = ''Triggered''"
definition itmRetrieved :: string where "itmRetrieved = ''Retrieved''"
definition cmdTrigger :: string where "cmdTrigger = ''Trigger''"
definition cmdCapture :: string where "cmdCapture = ''Capture''"
definition cmdRetrieve :: string where "cmdRetrieve = ''Retrieve''"
definition itmUseDisparityMapAreaOfInterest :: string where
  "itmUseDisparityMapAreaOfInterest = ''UseDisparityMapAreaOfInterest''"
definition itmDisparityMap :: string where "itmDisparityMap = ''DisparityMap''"
definition itmAreaOfInterest :: string where "itmAreaOfInterest = ''AreaOfInterest''"
definition itmLeftTop :: string where "itmLeftTop = ''LeftTop''"
definition itmRightBottom :: string where "itmRightBottom = ''RightBottom''"
definition itmDecodeData :: string where "itmDecodeData = ''DecodeData''"
definition itmPatternPose :: string where "itmPatternPose = ''PatternPose''"
definition itmLink :: string where "itmLink = ''Link''"
definition itmTarget :: string where "itmTarget = ''Target''"
definition itmSetup :: string where "itmSetup = ''Setup''"
definition itmTransformations :: string where "itmTransformations = ''Transformations''"
definition itmIterations :: string where "itmIterations = ''Iterations''"
definition itmReprojectionError :: string where "itmReprojectionError = ''ReprojectionError''"
definition itmCalibration :: string where "itmCalibration = ''Calibration''"
definition itmDefinedPose :: string where "itmDefinedPose = ''DefinedPose''"
definition valMoving :: string where "valMoving = ''Moving''"
definition valFixed :: string where "valFixed = ''Fixed''"
definition cmdDiscardPatterns :: string where "cmdDiscardPatterns = ''DiscardPatterns''"
definition cmdCollectPattern :: string where "cmdCollectPattern = ''CollectPattern''"
definition cmdEstimatePatternPose :: string where "cmdEstimatePatternPose = ''EstimatePatternPose''"
definition cmdCalibrateHandEye :: string where "cmdCalibrateHandEye = ''CalibrateHandEye''"
definition cmdCalibrateWorkspace :: string where "cmdCalibrateWorkspace = ''CalibrateWorkspace''"
definition cmdStoreCalibration :: string where "cmdStoreCalibration = ''StoreCalibration''"

subsection \<open>Property access and command execution\<close>

text \<open>
  Modelled from the spec: the typed reads behind \<^verbatim>\<open>getNx<T>\<close> and \<^verbatim>\<open>toEigenIsometry\<close>
  (\<^verbatim>\<open>util.hpp\<close> and \<^verbatim>\<open>eigen.hpp\<close> are not among the sources). A read fails with
  \<^verbatim>\<open>NxError\<close> when the item is missing or holds a value of another type. A transform
  node is taken to hold the pose it encodes.
\<close>

definition item_bool :: "nxtree \<Rightarrow> path \<Rightarrow> error + bool" where
  "item_bool t p = (case map_of t p of Some (NxBool b) \<Rightarrow> Inr b | _ \<Rightarrow> Inl NxError)"

definition item_int :: "nxtree \<Rightarrow> path \<Rightarrow> error + 32 word" where
  "item_int t p = (case map_of t p of Some (NxInt i) \<Rightarrow> Inr i | _ \<Rightarrow> Inl NxError)"

definition item_double :: "nxtree \<Rightarrow> path \<Rightarrow> error + real" where
  "item_double t p = (case map_of t p of Some (NxDouble d) \<Rightarrow> Inr d | _ \<Rightarrow> Inl NxError)"

definition item_string :: "nxtree \<Rightarrow> path \<Rightarrow> error + string" where
  "item_string t p = (case map_of t p of Some (NxString s) \<Rightarrow> Inr s | _ \<Rightarrow> Inl NxError)"

definition item_pose :: "nxtree \<Rightarrow> path \<Rightarrow> error + Isometry3d" where
  "item_pose t p = (case map_of t p of Some (NxPose q) \<Rightarrow> Inr q | _ \<Rightarrow> Inl NxError)"

text \<open>
  Modelled from the spec: \<^verbatim>\<open>getNx<T>(item)\<close> of \<^verbatim>\<open>util.hpp\<close>, \<open>get<T>(path)\<close> of the spec,
  on an item of the device tree (\<open>getNx\<close>) and on an item of a tree held by a command
  (\<open>getNxOf\<close>, for \<^verbatim>\<open>command.result()[...]\<close>).
\<close>

definition getNx :: "(nxtree \<Rightarrow> path \<Rightarrow> error + 'a) \<Rightarrow> path \<Rightarrow> 'a nx" where
  "getNx rd p = (\<lambda>w. (rd (root w) p, w))"

definition getNxOf :: "(nxtree \<Rightarrow> path \<Rightarrow> error + 'a) \<Rightarrow> nxtree \<Rightarrow> path \<Rightarrow> 'a nx" where
  "getNxOf rd t p = (\<lambda>w. (rd t p, w))"

text \<open>
  Modelled from the spec: \<^verbatim>\<open>setNx(item, value)\<close> of \<^verbatim>\<open>util.hpp\<close>, \<open>set<T>(path, value)\<close> of
  the spec, on an item of the device tree. The spec gives it no failure.
\<close>

definition setNx :: "path \<Rightarrow> nxvalue \<Rightarrow> unit nx" where
  "setNx p v = (\<lambda>w. (Inr (), \<lparr>root = AList.update p v (root w), issued = issued w @ [SetItem p v]\<rparr>))"

text \<open>
  \<^verbatim>\<open>NxLibItem::exists\<close> and \<^verbatim>\<open>NxLibItem::erase\<close> of the vendor library: an item exists when
  the tree holds a value at its path or below it, and erasing it removes all of them.
\<close>

definition item_exists :: "nxtree \<Rightarrow> path \<Rightarrow> bool" where
  "item_exists t p = list_ex (\<lambda>(q, v). prefix p q) t"

definition existsNx :: "path \<Rightarrow> bool nx" where
  "existsNx p = (\<lambda>w. (Inr (item_exists (root w) p), w))"

definition eraseNx :: "path \<Rightarrow> unit nx" where
  "eraseNx p = (\<lambda>w. (Inr (),
     \<lparr>root = filter (\<lambda>(q, v). \<not> prefix p q) (root w), issued = issued w @ [EraseItem p]\<rparr>))"

text \<open>
  \<^verbatim>\<open>NxLibItem::asString(&error)\<close> of the vendor library: the error code is set when the item
  is missing or holds no string.
\<close>

definition asString :: "nxtree \<Rightarrow> path \<Rightarrow> string \<times> bool" where
  "asString t p = (case map_of t p of Some (NxString s) \<Rightarrow> (s, False) | _ \<Rightarrow> ([], True))"

text \<open>
  \<^verbatim>\<open>NxLibCommand command(name)\<close> and \<^verbatim>\<open>setNx(command.parameters()[...], value)\<close>: a command
  holds its name and its parameters until it is executed.
\<close>

definition newCommand :: "string \<Rightarrow> NxLibCommand" where
  "newCommand n = \<lparr>command_name = n, parameters = []\<rparr>"

definition setParam :: "path \<Rightarrow> nxvalue \<Rightarrow> NxLibCommand \<Rightarrow> NxLibCommand" where
  "setParam p v c = c\<lparr>parameters := AList.update p v (parameters c)\<rparr>"

text \<open>
  Modelled from the spec: \<^verbatim>\<open>executeNx(command)\<close> of \<^verbatim>\<open>util.hpp\<close>,
  \<open>execute(commandName, parameters)\<close> of the spec. It yields the result tree or fails with
  the executor's error; either way the command has been issued and the tree is the one
  the executor leaves.
\<close>

definition executeNx :: "executor \<Rightarrow> NxLibCommand \<Rightarrow> nxtree nx" where
  "executeNx ex c = (\<lambda>w.
     case ex (command_name c) (parameters c) (root w) of
       (r, t') \<Rightarrow> (r, \<lparr>root = t', issued = issued w @ [Execute (command_name c) (parameters c)]\<rparr>))"

subsection \<open>Rigid transforms and rectangles\<close>

text \<open>
  \<^verbatim>\<open>Eigen::Isometry3d\<close>: \<^verbatim>\<open>p.translation() *= k\<close> scales the translation and leaves the
  rotation; \<^verbatim>\<open>inverse()\<close> of an isometry transposes the rotation \<open>R\<close> and maps the
  translation \<open>t\<close> to \<open>- R\<^sup>T t\<close>; \<^verbatim>\<open>a * b\<close> applies \<open>b\<close> first.
\<close>

definition scale_translation :: "real \<Rightarrow> Isometry3d \<Rightarrow> Isometry3d" where
  "scale_translation k p =
     p\<lparr>translation := (case translation p of (x, y, z) \<Rightarrow> (x * k, y * k, z * k))\<rparr>"

definition mat_transpose :: "mat3 \<Rightarrow> mat3" where
  "mat_transpose m =
     (case m of ((a, b, c), (d, e, f), (g, h, i)) \<Rightarrow> ((a, d, g), (b, e, h), (c, f, i)))"

definition mat_vec :: "mat3 \<Rightarrow> vec3 \<Rightarrow> vec3" where
  "mat_vec m v =
     (case m of ((a, b, c), (d, e, f), (g, h, i)) \<Rightarrow>
      case v of (x, y, z) \<Rightarrow>
        (a * x + b * y + c * z, d * x + e * y + f * z, g * x + h * y + i * z))"

definition mat_mul :: "mat3 \<Rightarrow> mat3 \<Rightarrow> mat3" where
  "mat_mul m n =
     (case mat_transpose n of (c1, c2, c3) \<Rightarrow>
      case (mat_vec m c1, mat_vec m c2, mat_vec m c3) of (r1, r2, r3) \<Rightarrow>
        mat_transpose (r1, r2, r3))"

definition vec_add :: "vec3 \<Rightarrow> vec3 \<Rightarrow> vec3" where
  "vec_add u v = (case u of (a, b, c) \<Rightarrow> case v of (x, y, z) \<Rightarrow> (a + x, b + y, c + z))"

definition vec_neg :: "vec3 \<Rightarrow> vec3" where
  "vec_neg u = (case u of (a, b, c) \<Rightarrow> (- a, - b, - c))"

definition inverse_isometry :: "Isometry3d \<Rightarrow> Isometry3d" where
  "inverse_isometry p =
     \<lparr>rotation = mat_transpose (rotation p),
      translation = vec_neg (mat_vec (mat_transpose (rotation p)) (translation p))\<rparr>"

definition times_isometry :: "Isometry3d \<Rightarrow> Isometry3d \<Rightarrow> Isometry3d" where
  "times_isometry a b =
     \<lparr>rotation = mat_mul (rotation a) (rotation b),
      translation = vec_add (mat_vec (rotation a) (translation b)) (translation a)\<rparr>"

text \<open>\<^verbatim>\<open>cv::Rect\<close>, with the two's-complement arithmetic of \<^verbatim>\<open>int\<close>.\<close>

record Rect =
  rect_x :: "32 word"
  rect_y :: "32 word"
  rect_width :: "32 word"
  rect_height :: "32 word"

definition area :: "Rect \<Rightarrow> 32 word" where
  "area r = rect_width r * rect_height r"

definition tl_rect :: "Rect \<Rightarrow> 32 word \<times> 32 word" where
  "tl_rect r = (rect_x r, rect_y r)"

definition br_rect :: "Rect \<Rightarrow> 32 word \<times> 32 word" where
  "br_rect r = (rect_x r + rect_width r, rect_y r + rect_height r)"

section \<open>The camera object\<close>

record Ensenso =
  ensenso_camera :: path
  monocular_camera :: "path option"

text \<open>\<^verbatim>\<open>boost::optional::get()\<close>\<close>

definition optional_get :: "'a option \<Rightarrow> 'a nx" where
  "optional_get x = (case x of Some v \<Rightarrow> returnM v | None \<Rightarrow> throwM EmptyOptional)"

definition serialNumber :: "Ensenso \<Rightarrow> string nx" where
  "serialNumber cam = getNx item_string (ensenso_camera cam @ [Name itmSerialNumber])"

definition monocularSerialNumber :: "Ensenso \<Rightarrow> string nx" where
  "monocularSerialNumber cam =
     (case monocular_camera cam of
        Some m \<Rightarrow> getNx item_string (m @ [Name itmSerialNumber])
      | None \<Rightarrow> returnM [])"

definition flexView :: "Ensenso \<Rightarrow> 32 word nx" where
  "flexView cam =
     catchNxError
       (getNx item_int (ensenso_camera cam @ [Name itmParameters, Name itmCapture, Name itmFlexView]))
       (returnM (- 1))"

definition setFlexView :: "Ensenso \<Rightarrow> 32 word \<Rightarrow> unit nx" where
  "setFlexView cam v =
     setNx (ensenso_camera cam @ [Name itmParameters, Name itmCapture, Name itmFlexView]) (NxInt v)"

definition setFrontLight :: "Ensenso \<Rightarrow> bool \<Rightarrow> unit nx" where
  "setFrontLight cam state =
     setNx (ensenso_camera cam @ [Name itmParameters, Name itmCapture, Name itmFrontLight]) (NxBool state)"

definition setProjector :: "Ensenso \<Rightarrow> bool \<Rightarrow> unit nx" where
  "setProjector cam state =
     setNx (ensenso_camera cam @ [Name itmParameters, Name itmCapture, Name itmProjector]) (NxBool state)"

definition trigger :: "executor \<Rightarrow> Ensenso \<Rightarrow> bool \<Rightarrow> bool \<Rightarrow> bool nx" where
  "trigger ex cam stereo monocular0 =
     (let monocular = (monocular0 \<and> monocular_camera cam \<noteq> None);
          command = newCommand cmdTrigger in
      bindM (if stereo
             then bindM (serialNumber cam) (\<lambda>s.
                    returnM (setParam [Name itmCameras, Idx 0] (NxString s) command))
             else returnM command) (\<lambda>command.
      bindM (if monocular
             then bindM (optional_get (monocular_camera cam)) (\<lambda>m.
                  bindM (getNx item_string (m @ [Name itmSerialNumber])) (\<lambda>s.
                    returnM (setParam [Name itmCameras, Idx (if stereo then 1 else 0)] (NxString s) command)))
             else returnM command) (\<lambda>command.
      bindM (executeNx ex command) (\<lambda>result.
      bindM (if stereo
             then bindM (serialNumber cam) (\<lambda>s. getNxOf item_bool result [Name s, Name itmTriggered])
             else returnM True) (\<lambda>triggered.
      if stereo \<and> \<not> triggered then returnM False
      else
      bindM (if monocular
             then bindM (monocularSerialNumber cam) (\<lambda>s.
                    getNxOf item_bool result [Name s, Name itmTriggered])
             else returnM True) (\<lambda>triggered.
      if monocular \<and> \<not> triggered then returnM False
      else returnM True))))))"

text \<open>\<^verbatim>\<open>int(timeout)\<close> keeps the 32 bits of \<^verbatim>\<open>timeout\<close>.\<close>

definition retrieve :: "executor \<Rightarrow> Ensenso \<Rightarrow> bool \<Rightarrow> 32 word \<Rightarrow> bool \<Rightarrow> bool \<Rightarrow> bool nx" where
  "retrieve ex cam trig timeout stereo monocular0 =
     (let monocular = (monocular0 \<and> monocular_camera cam \<noteq> None) in
      if \<not> stereo \<and> \<not> monocular then returnM True
      else
      let command = newCommand (if trig then cmdCapture else cmdRetrieve);
          command = setParam [Name itmTimeout] (NxInt timeout) command in
      bindM (if stereo
             then bindM (serialNumber cam) (\<lambda>s.
                    returnM (setParam [Name itmCameras, Idx 0] (NxString s) command))
             else returnM command) (\<lambda>command.
      bindM (if monocular
             then bindM (optional_get (monocular_camera cam)) (\<lambda>m.
                  bindM (getNx item_string (m @ [Name itmSerialNumber])) (\<lambda>s.
                    returnM (setParam [Name itmCameras, Idx (if stereo then 1 else 0)] (NxString s) command)))
             else returnM command) (\<lambda>command.
      bindM (executeNx ex command) (\<lambda>result.
      bindM (if stereo
             then bindM (serialNumber cam) (\<lambda>s. getNxOf item_bool result [Name s, Name itmRetrieved])
             else returnM True) (\<lambda>retrieved.
      if stereo \<and> \<not> retrieved then returnM False
      else
      bindM (if monocular
             then bindM (monocularSerialNumber cam) (\<lambda>s.
                    getNxOf item_bool result [Name s, Name itmRetrieved])
             else returnM True) (\<lambda>retrieved.
      if monocular \<and> \<not> retrieved then returnM False
      else returnM True))))))"

definition setRegionOfInterest :: "Ensenso \<Rightarrow> Rect \<Rightarrow> unit nx" where
  "setRegionOfInterest cam roi =
     (if area roi = 0
      then
        thenM (setNx (ensenso_camera cam @ [Name itmParameters, Name itmCapture, Name itmUseDisparityMapAreaOfInterest]) (NxBool False))
        (bindM (existsNx (ensenso_camera cam @ [Name itmParameters, Name itmDisparityMap, Name itmAreaOfInterest])) (\<lambda>there.
         whenM there
           (eraseNx (ensenso_camera cam @ [Name itmParameters, Name itmDisparityMap, Name itmAreaOfInterest]))))
      else
        thenM (setNx (ensenso_camera cam @ [Name itmParameters, Name itmCapture, Name itmUseDisparityMapAreaOfInterest]) (NxBool True))
        (thenM (setNx (ensenso_camera cam @ [Name itmParameters, Name itmDisparityMap, Name itmAreaOfInterest, Name itmLeftTop, Idx 0]) (NxInt (fst (tl_rect roi))))
        (thenM (setNx (ensenso_camera cam @ [Name itmParameters, Name itmDisparityMap, Name itmAreaOfInterest, Name itmLeftTop, Idx 1]) (NxInt (snd (tl_rect roi))))
        (thenM (setNx (ensenso_camera cam @ [Name itmParameters, Name itmDisparityMap, Name itmAreaOfInterest, Name itmRightBottom, Idx 0]) (NxInt (fst (br_rect roi))))
               (setNx (ensenso_camera cam @ [Name itmParameters, Name itmDisparityMap, Name itmAreaOfInterest, Name itmRightBottom, Idx 1]) (NxInt (snd (br_rect roi))))))))"

definition discardCalibrationPatterns :: "executor \<Rightarrow> unit nx" where
  "discardCalibrationPatterns ex =
     bindM (executeNx ex (newCommand cmdDiscardPatterns)) (\<lambda>_. returnM ())"

definition recordCalibrationPattern :: "executor \<Rightarrow> Ensenso \<Rightarrow> unit nx" where
  "recordCalibrationPattern ex cam =
     bindM (flexView cam) (\<lambda>flex_view.
     thenM (whenM (0 <s flex_view) (setFlexView cam 0))
     (thenM (setProjector cam False)
     (thenM (setFrontLight cam True)
     (thenM (retrieve ex cam True 1500 True False)
     (thenM (setFrontLight cam False)
     (thenM (setProjector cam True)
     (bindM (serialNumber cam) (\<lambda>s.
      let command_collect_pattern = newCommand cmdCollectPattern;
          command_collect_pattern = setParam [Name itmCameras] (NxString s) command_collect_pattern;
          command_collect_pattern = setParam [Name itmDecodeData] (NxBool True) command_collect_pattern in
      thenM (executeNx ex command_collect_pattern)
        (whenM (0 <s flex_view) (setFlexView cam flex_view))))))))))"

definition getWorkspaceCalibrationFrame :: "Ensenso \<Rightarrow> string nx" where
  "getWorkspaceCalibrationFrame cam = (\<lambda>w.
     case asString (root w) (ensenso_camera cam @ [Name itmLink, Name itmTarget]) of
       (result, err) \<Rightarrow> (Inr (if err then [] else result), w))"

definition getWorkspaceCalibration :: "Ensenso \<Rightarrow> Isometry3d option nx" where
  "getWorkspaceCalibration cam =
     bindM (getWorkspaceCalibrationFrame cam) (\<lambda>frame.
     if frame = [] then returnM None
     else
     bindM (getNx item_pose (ensenso_camera cam @ [Name itmLink])) (\<lambda>pose.
     returnM (Some (scale_translation (1 / 1000) pose))))"

definition detectCalibrationPattern :: "executor \<Rightarrow> Ensenso \<Rightarrow> 32 word \<Rightarrow> bool \<Rightarrow> Isometry3d nx" where
  "detectCalibrationPattern ex cam samples ignore_calibration =
     thenM (discardCalibrationPatterns ex)
     (thenM (repeatM (nat (sint samples)) (recordCalibrationPattern ex cam))
     (bindM (flexView cam) (\<lambda>flex_view.
      thenM (whenM (0 <s flex_view) (setFlexView cam 0))
     (bindM (executeNx ex (newCommand cmdEstimatePatternPose)) (\<lambda>estimate.
      thenM (whenM (0 <s flex_view) (setFlexView cam flex_view))
     (bindM (getNxOf item_pose estimate [Name ''Patterns'', Idx 0, Name itmPatternPose]) (\<lambda>pose.
      let result = scale_translation (1 / 1000) pose in
      if ignore_calibration
      then bindM (getWorkspaceCalibration cam) (\<lambda>camera_pose.
             case camera_pose of
               Some c \<Rightarrow> returnM (times_isometry c result)
             | None \<Rightarrow> returnM result)
      else returnM result)))))))"

type_synonym CalibrationResult = "Isometry3d \<times> Isometry3d \<times> 32 word \<times> real"

definition computeCalibration ::
  "executor \<Rightarrow> Ensenso \<Rightarrow> Isometry3d list \<Rightarrow> bool \<Rightarrow> Isometry3d option \<Rightarrow> Isometry3d option \<Rightarrow>
   string \<Rightarrow> CalibrationResult nx" where
  "computeCalibration ex cam robot_poses moving camera_guess pattern_guess target =
     (let calibrate = newCommand cmdCalibrateHandEye;
          calibrate = (case camera_guess of
                         Some g \<Rightarrow> setParam [Name itmLink] (NxPose (scale_translation 1000 g)) calibrate
                       | None \<Rightarrow> calibrate);
          calibrate = (case pattern_guess of
                         Some g \<Rightarrow> setParam [Name itmPatternPose] (NxPose (scale_translation 1000 g)) calibrate
                       | None \<Rightarrow> calibrate);
          calibrate = setParam [Name itmSetup] (NxString (if moving then valMoving else valFixed)) calibrate;
          calibrate = (if target \<noteq> [] then setParam [Name itmTarget] (NxString target) calibrate
                       else calibrate);
          calibrate = fold (\<lambda>i. setParam [Name itmTransformations, Idx i]
                                 (NxPose (scale_translation 1000 (robot_poses ! i))))
                        [0 ..< length robot_poses] calibrate in
      bindM (executeNx ex calibrate) (\<lambda>result.
      bindM (getNx item_pose (ensenso_camera cam @ [Name itmLink])) (\<lambda>link.
      bindM (getNxOf item_pose result [Name itmPatternPose]) (\<lambda>pattern.
      let camera_pose = scale_translation (1 / 1000) (inverse_isometry link);
          pattern_pose = scale_translation (1 / 1000) pattern in
      bindM (getNxOf item_int result [Name itmIterations]) (\<lambda>iterations.
      bindM (getNxOf item_double result [Name itmReprojectionError]) (\<lambda>reprojection_error.
      returnM (camera_pose, pattern_pose, iterations, reprojection_error)))))))"

text \<open>The command that \<^verbatim>\<open>computeCalibration\<close> has built when it reaches \<^verbatim>\<open>executeNx\<close>.\<close>

definition handEyeCommand ::
  "Isometry3d list \<Rightarrow> bool \<Rightarrow> Isometry3d option \<Rightarrow> Isometry3d option \<Rightarrow> string \<Rightarrow> NxLibCommand" where
  "handEyeCommand robot_poses moving camera_guess pattern_guess target =
     (let calibrate = newCommand cmdCalibrateHandEye;
          calibrate = (case camera_guess of
                         Some g \<Rightarrow> setParam [Name itmLink] (NxPose (scale_translation 1000 g)) calibrate
                       | None \<Rightarrow> calibrate);
          calibrate = (case pattern_guess of
                         Some g \<Rightarrow> setParam [Name itmPatternPose] (NxPose (scale_translation 1000 g)) calibrate
                       | None \<Rightarrow> calibrate);
          calibrate = setParam [Name itmSetup] (NxString (if moving then valMoving else valFixed)) calibrate;
          calibrate = (if target \<noteq> [] then setParam [Name itmTarget] (NxString target) calibrate
                       else calibrate)
      in fold (\<lambda>i. setParam [Name itmTransformations, Idx i]
                                 (NxPose (scale_translation 1000 (robot_poses ! i))))
                        [0 ..< length robot_poses] calibrate)"

definition storeWorkspaceCalibration :: "executor \<Rightarrow> Ensenso \<Rightarrow> unit nx" where
  "storeWorkspaceCalibration ex cam =
     bindM (serialNumber cam) (\<lambda>s.
     let command = newCommand cmdStoreCalibration;
         command = setParam [Name itmCameras, Idx 0] (NxString s) command;
         command = setParam [Name itmCalibration, Idx 0] (NxBool True) command;
         command = setParam [Name itmLink, Idx 0] (NxBool True) command in
     bindM (executeNx ex command) (\<lambda>_. returnM ()))"

definition setWorkspaceCalibration ::
  "executor \<Rightarrow> Ensenso \<Rightarrow> Isometry3d \<Rightarrow> string \<Rightarrow> Isometry3d \<Rightarrow> bool \<Rightarrow> unit nx" where
  "setWorkspaceCalibration ex cam workspace frame_id defined_pose store =
     bindM (serialNumber cam) (\<lambda>s.
     let command = newCommand cmdCalibrateWorkspace;
         command = setParam [Name itmCameras, Idx 0] (NxString s) command;
         command = setParam [Name itmPatternPose] (NxPose (scale_translation 1000 workspace)) command;
         command = (if frame_id \<noteq> [] then setParam [Name itmTarget] (NxString frame_id) command
                    else command);
         command = setParam [Name itmDefinedPose] (NxPose (scale_translation 1000 defined_pose)) command in
     thenM (executeNx ex command)
       (whenM store (storeWorkspaceCalibration ex cam)))"

definition clearWorkspaceCalibration :: "executor \<Rightarrow> Ensenso \<Rightarrow> bool \<Rightarrow> unit nx" where
  "clearWorkspaceCalibration ex cam store =
     bindM (getWorkspaceCalibrationFrame cam) (\<lambda>frame.
     if frame = [] then returnM ()
     else
     bindM (serialNumber cam) (\<lambda>s.
     let command = newCommand cmdCalibrateWorkspace;
         command = setParam [Name itmCameras, Idx 0] (NxString s) command;
         command = setParam [Name itmTarget] (NxString []) command in
     thenM (executeNx ex command)
     (bindM (serialNumber cam) (\<lambda>s.
      thenM (setNx (ensenso_camera cam @ [Name itmLink, Name itmTarget]) (NxString (s @ ''_frame'')))
        (whenM store (storeWorkspaceCalibration ex cam))))))"

section \<open>A concrete session\<close>

text \<open>
  A camera with a linked monocular camera, a tree with a workspace calibration and
  FlexView at level 2, and two executors: one that succeeds on every command and leaves
  the tree as it is, one that fails on every command; and three rectangles, the last
  one of positive width and height with an area that wraps to 0. The theorems below are
  instantiated on them.
\<close>

definition demo_pose :: Isometry3d where
  "demo_pose = \<lparr>rotation = ((0, - 1, 0), (1, 0, 0), (0, 0, 1)), translation = (100, 200, 300)\<rparr>"

definition demo_camera :: Ensenso where
  "demo_camera = \<lparr>ensenso_camera = [Name ''stereo''], monocular_camera = Some [Name ''mono'']\<rparr>"

definition demo_world :: world where
  "demo_world =
     \<lparr>root = [([Name ''stereo'', Name itmSerialNumber], NxString ''S1''),
              ([Name ''mono'', Name itmSerialNumber], NxString ''M1''),
              ([Name ''stereo'', Name itmParameters, Name itmCapture, Name itmFlexView], NxInt 2),
              ([Name ''stereo'', Name itmLink], NxPose demo_pose),
              ([Name ''stereo'', Name itmLink, Name itmTarget], NxString ''Workspace'')],
      issued = []\<rparr>"

definition demo_result :: nxtree where
  "demo_result =
     [([Name ''S1'', Name itmRetrieved], NxBool True),
      ([Name ''M1'', Name itmRetrieved], NxBool True),
      ([Name ''S1'', Name itmTriggered], NxBool True),
      ([Name ''M1'', Name itmTriggered], NxBool True),
      ([Name ''Patterns'', Idx 0, Name itmPatternPose], NxPose demo_pose),
      ([Name itmPatternPose], NxPose demo_pose),
      ([Name itmIterations], NxInt 7),
      ([Name itmReprojectionError], NxDouble (1 / 4))]"

definition demo_roi :: Rect where
  "demo_roi = \<lparr>rect_x = 0, rect_y = 0, rect_width = 100, rect_height = 80\<rparr>"

definition unrestricted_roi :: Rect where
  "unrestricted_roi = \<lparr>rect_x = 0, rect_y = 0, rect_width = 0, rect_height = 0\<rparr>"

definition wrapping_roi :: Rect where
  "wrapping_roi = \<lparr>rect_x = 3, rect_y = 4, rect_width = 65536, rect_height = 65536\<rparr>"

definition demo_executor :: executor where
  "demo_executor n p t = (Inr demo_result, t)"

definition failing_executor :: executor where
  "failing_executor n p t = (Inl NxError, t)"

section \<open>Evaluation rules\<close>

lemma returnM_apply: "returnM x w = (Inr x, w)" by (simp add: returnM_def)
lemma throwM_apply: "throwM e w = (Inl e, w)" by (simp add: throwM_def)
lemma bindM_returnM: "bindM (returnM x) f = f x" by (simp add: bindM_def returnM_def)
lemma bindM_throwM: "bindM (throwM e) f = throwM e" by (simp add: bindM_def throwM_def)
lemma bindM_assoc: "bindM (bindM m f) g = bindM m (\<lambda>x. bindM (f x) g)"
  by (auto simp: bindM_def fun_eq_iff split: prod.splits sum.splits)
lemma bindM_getNx: "bindM (getNx rd p) f w = (case rd (root w) p of Inl e \<Rightarrow> (Inl e, w) | Inr x \<Rightarrow> f x w)"
  by (simp add: bindM_def getNx_def split: sum.splits)
lemma bindM_getNxOf: "bindM (getNxOf rd t p) f w = (case rd t p of Inl e \<Rightarrow> (Inl e, w) | Inr x \<Rightarrow> f x w)"
  by (simp add: bindM_def getNxOf_def split: sum.splits)
lemma getNx_apply: "getNx rd p w = (rd (root w) p, w)" by (simp add: getNx_def)
lemma getNxOf_apply: "getNxOf rd t p w = (rd t p, w)" by (simp add: getNxOf_def)
lemma setNx_apply: "setNx p v w =
    (Inr (), \<lparr>root = AList.update p v (root w), issued = issued w @ [SetItem p v]\<rparr>)"
  by (simp add: setNx_def)
lemma bindM_setNx: "bindM (setNx p v) f w =
    f () \<lparr>root = AList.update p v (root w), issued = issued w @ [SetItem p v]\<rparr>"
  by (simp add: bindM_def setNx_def)
lemma executeNx_apply: "executeNx ex c w =
   (case ex (command_name c) (parameters c) (root w) of
      (r, t') \<Rightarrow> (r, \<lparr>root = t', issued = issued w @ [Execute (command_name c) (parameters c)]\<rparr>))"
  by (simp add: executeNx_def)
lemma bindM_executeNx: "bindM (executeNx ex c) f w =
   (case ex (command_name c) (parameters c) (root w) of
      (Inl e, t') \<Rightarrow> (Inl e, \<lparr>root = t', issued = issued w @ [Execute (command_name c) (parameters c)]\<rparr>)
    | (Inr r, t') \<Rightarrow> f r \<lparr>root = t', issued = issued w @ [Execute (command_name c) (parameters c)]\<rparr>)"
  by (simp add: bindM_def executeNx_def split: prod.splits sum.splits)
lemma bindM_optional_get: "bindM (optional_get x) f w =
   (case x of None \<Rightarrow> (Inl EmptyOptional, w) | Some v \<Rightarrow> f v w)"
  by (simp add: bindM_def optional_get_def returnM_def throwM_def split: option.splits)

lemmas nx_simps = returnM_apply throwM_apply bindM_returnM bindM_throwM bindM_assoc bindM_getNx bindM_getNxOf
  getNx_apply getNxOf_apply setNx_apply bindM_setNx executeNx_apply bindM_executeNx bindM_optional_get thenM_def whenM_def
  newCommand_def setParam_def Let_def

lemmas cam_simps = trigger_def retrieve_def serialNumber_def monocularSerialNumber_def nx_simps

section \<open>Reading the FlexView level\<close>

lemma flexView_apply:
  "flexView cam w =
     (case item_int (root w) (ensenso_camera cam @ [Name itmParameters, Name itmCapture, Name itmFlexView]) of
        Inr v \<Rightarrow> (Inr v, w)
      | Inl e \<Rightarrow> (Inr (- 1), w))"
  by (auto simp: flexView_def catchNxError_def getNx_def returnM_def item_int_def
      split: sum.splits option.splits nxvalue.splits error.splits)

text \<open>
  C9: \<^verbatim>\<open>flexView\<close> never raises. When the read of the FlexView item fails (FlexView is
  off: the item holds no integer), the error is caught and the result is \<open>-1\<close>; when the
  read succeeds, the stored level is returned as it is. The tree is left unchanged and
  nothing is issued.
\<close>

theorem flexView_sentinel:
  "(\<exists>v. flexView cam w = (Inr v, w))
   \<and> flexView cam w =
       (case item_int (root w) (ensenso_camera cam @ [Name itmParameters, Name itmCapture, Name itmFlexView]) of
          Inr v \<Rightarrow> (Inr v, w)
        | Inl e \<Rightarrow> (Inr (- 1), w))"
  by (simp add: flexView_apply split: sum.splits)

section \<open>Trigger and retrieve\<close>

lemma retrieve_nothing_to_do:
  assumes "\<not> stereo" and "\<not> (monocular \<and> monocular_camera cam \<noteq> None)"
  shows "retrieve ex cam trig timeout stereo monocular w = (Inr True, w)"
  using assms by (auto simp: cam_simps)

lemma retrieve_sound:
  assumes r: "retrieve ex cam trig timeout stereo monocular w = (Inr b, w')"
    and a: "stereo \<or> (monocular \<and> monocular_camera cam \<noteq> None)"
  shows "\<exists>params result.
           issued w' = issued w @ [Execute (if trig then cmdCapture else cmdRetrieve) params]
         \<and> ex (if trig then cmdCapture else cmdRetrieve) params (root w) = (Inr result, root w')
         \<and> (b \<longleftrightarrow>
              (stereo \<longrightarrow>
                 (\<exists>s. item_string (root w') (ensenso_camera cam @ [Name itmSerialNumber]) = Inr s
                    \<and> item_bool result [Name s, Name itmRetrieved] = Inr True))
            \<and> (monocular \<and> monocular_camera cam \<noteq> None \<longrightarrow>
                 (\<exists>m s. monocular_camera cam = Some m
                    \<and> item_string (root w') (m @ [Name itmSerialNumber]) = Inr s
                    \<and> item_bool result [Name s, Name itmRetrieved] = Inr True)))"
proof (cases stereo)
  case True
  show ?thesis
  proof (cases "monocular \<and> monocular_camera cam \<noteq> None")
    case mono: True
    then obtain m where m: "monocular_camera cam = Some m" by auto
    show ?thesis using r True mono m
      by (auto simp: cam_simps split: sum.splits prod.splits if_splits)
  next
    case mono: False
    show ?thesis using r True mono
      by (auto simp: cam_simps split: sum.splits prod.splits if_splits)
  qed
next
  case False
  with a obtain m where m: "monocular_camera cam = Some m" and mono: "monocular" by auto
  show ?thesis using r False mono m
    by (auto simp: cam_simps split: sum.splits prod.splits if_splits)
qed

lemma retrieve_complete:
  assumes a: "stereo \<or> (monocular \<and> monocular_camera cam \<noteq> None)"
    and i: "issued (snd (retrieve ex cam trig timeout stereo monocular w)) =
              issued w @ [Execute (if trig then cmdCapture else cmdRetrieve) params]"
    and e: "ex (if trig then cmdCapture else cmdRetrieve) params (root w) = (Inr result, t')"
    and s: "stereo \<longrightarrow>
              (\<exists>s. item_string t' (ensenso_camera cam @ [Name itmSerialNumber]) = Inr s
                 \<and> item_bool result [Name s, Name itmRetrieved] = Inr True)"
    and m: "monocular \<and> monocular_camera cam \<noteq> None \<longrightarrow>
              (\<exists>m s. monocular_camera cam = Some m
                 \<and> item_string t' (m @ [Name itmSerialNumber]) = Inr s
                 \<and> item_bool result [Name s, Name itmRetrieved] = Inr True)"
  shows "retrieve ex cam trig timeout stereo monocular w =
           (Inr True, \<lparr>root = t', issued = issued w @ [Execute (if trig then cmdCapture else cmdRetrieve) params]\<rparr>)"
proof -
  let ?cmd = "if trig then cmdCapture else cmdRetrieve"
  let ?sp = "ensenso_camera cam @ [Name itmSerialNumber]"
  have cmd: "ex ?cmd params (root w) = (Inr result, t')" using e .
  show ?thesis
  proof (cases stereo)
    case True
    then obtain s1 where s1: "item_string t' ?sp = Inr s1" "item_bool result [Name s1, Name itmRetrieved] = Inr True"
      using s by blast
    show ?thesis
    proof (cases "item_string (root w) ?sp")
      case (Inl err)
      then have False using i True by (simp add: cam_simps)
      then show ?thesis ..
    next
      case sn: (Inr sn)
      show ?thesis
      proof (cases "monocular \<and> monocular_camera cam \<noteq> None")
        case mono: True
        then obtain mc s2 where m': "monocular_camera cam = Some mc"
          and s2: "item_string t' (mc @ [Name itmSerialNumber]) = Inr s2"
            "item_bool result [Name s2, Name itmRetrieved] = Inr True"
          using m by blast
        show ?thesis
        proof (cases "item_string (root w) (mc @ [Name itmSerialNumber])")
          case (Inl err)
          then have False using i True mono m' sn by (simp add: cam_simps)
          then show ?thesis ..
        next
          case (Inr msn)
          have "params = [([Name itmTimeout], NxInt timeout),
              ([Name itmCameras, Idx 0], NxString sn), ([Name itmCameras, Idx 1], NxString msn)]"
            using i True mono m' sn Inr by (auto simp: cam_simps split: prod.splits sum.splits if_splits)
          then show ?thesis using cmd True mono m' sn Inr s1 s2
            by (simp add: cam_simps)
        qed
      next
        case mono: False
        have "params = [([Name itmTimeout], NxInt timeout), ([Name itmCameras, Idx 0], NxString sn)]"
          using i True mono sn by (auto simp: cam_simps split: prod.splits sum.splits if_splits)
        then show ?thesis using cmd True mono sn s1
          by (auto simp: cam_simps)
      qed
    qed
  next
    case False
    with a m obtain mc s2 where mono: "monocular" and m': "monocular_camera cam = Some mc"
      and s2: "item_string t' (mc @ [Name itmSerialNumber]) = Inr s2"
        "item_bool result [Name s2, Name itmRetrieved] = Inr True"
      by blast
    show ?thesis
    proof (cases "item_string (root w) (mc @ [Name itmSerialNumber])")
      case (Inl err)
      then have False using i False mono m' by (simp add: cam_simps)
      then show ?thesis ..
    next
      case (Inr msn)
      have "params = [([Name itmTimeout], NxInt timeout), ([Name itmCameras, Idx 0], NxString msn)]"
        using i False mono m' Inr by (auto simp: cam_simps split: prod.splits sum.splits if_splits)
      then show ?thesis using cmd False mono m' Inr s2
        by (simp add: cam_simps)
    qed
  qed
qed

text \<open>
  C3: \<^verbatim>\<open>retrieve\<close> first narrows the monocular flag to false when there is no monocular
  camera. With no camera addressed after that, it returns true and leaves the world as
  it is: nothing is issued. Otherwise, whenever it returns a value, it has issued exactly
  one capture or retrieve command, the command has succeeded, and the value is true
  exactly when every addressed camera has the flag \<^verbatim>\<open>Retrieved\<close> set to true under its
  serial number in the command's result. And it does return true when the command it
  has issued succeeds and every addressed camera has that flag set to true.
\<close>

theorem retrieve_all_addressed:
  "(\<not> stereo \<and> \<not> (monocular \<and> monocular_camera cam \<noteq> None) \<longrightarrow>
      retrieve ex cam trig timeout stereo monocular w = (Inr True, w))
   \<and> (stereo \<or> (monocular \<and> monocular_camera cam \<noteq> None) \<longrightarrow>
      (\<forall>b w'. retrieve ex cam trig timeout stereo monocular w = (Inr b, w') \<longrightarrow>
         (\<exists>params result.
            issued w' = issued w @ [Execute (if trig then cmdCapture else cmdRetrieve) params]
          \<and> ex (if trig then cmdCapture else cmdRetrieve) params (root w) = (Inr result, root w')
          \<and> (b \<longleftrightarrow>
               (stereo \<longrightarrow>
                  (\<exists>s. item_string (root w') (ensenso_camera cam @ [Name itmSerialNumber]) = Inr s
                     \<and> item_bool result [Name s, Name itmRetrieved] = Inr True))
             \<and> (monocular \<and> monocular_camera cam \<noteq> None \<longrightarrow>
                  (\<exists>m s. monocular_camera cam = Some m
                     \<and> item_string (root w') (m @ [Name itmSerialNumber]) = Inr s
                     \<and> item_bool result [Name s, Name itmRetrieved] = Inr True))))))
   \<and> (stereo \<or> (monocular \<and> monocular_camera cam \<noteq> None) \<longrightarrow>
      (\<forall>params result t'.
         issued (snd (retrieve ex cam trig timeout stereo monocular w)) =
           issued w @ [Execute (if trig then cmdCapture else cmdRetrieve) params]
       \<and> ex (if trig then cmdCapture else cmdRetrieve) params (root w) = (Inr result, t')
       \<and> (stereo \<longrightarrow>
            (\<exists>s. item_string t' (ensenso_camera cam @ [Name itmSerialNumber]) = Inr s
               \<and> item_bool result [Name s, Name itmRetrieved] = Inr True))
       \<and> (monocular \<and> monocular_camera cam \<noteq> None \<longrightarrow>
            (\<exists>m s. monocular_camera cam = Some m
               \<and> item_string t' (m @ [Name itmSerialNumber]) = Inr s
               \<and> item_bool result [Name s, Name itmRetrieved] = Inr True))
       \<longrightarrow> retrieve ex cam trig timeout stereo monocular w =
             (Inr True,
              \<lparr>root = t',
               issued = issued w @ [Execute (if trig then cmdCapture else cmdRetrieve) params]\<rparr>)))"
proof (intro conjI impI allI)
  assume "\<not> stereo \<and> \<not> (monocular \<and> monocular_camera cam \<noteq> None)"
  then show "retrieve ex cam trig timeout stereo monocular w = (Inr True, w)"
    using retrieve_nothing_to_do by blast
next
  fix b w'
  assume "stereo \<or> (monocular \<and> monocular_camera cam \<noteq> None)"
    and "retrieve ex cam trig timeout stereo monocular w = (Inr b, w')"
  then show "\<exists>params result.
            issued w' = issued w @ [Execute (if trig then cmdCapture else cmdRetrieve) params]
          \<and> ex (if trig then cmdCapture else cmdRetrieve) params (root w) = (Inr result, root w')
          \<and> (b \<longleftrightarrow>
               (stereo \<longrightarrow>
                  (\<exists>s. item_string (root w') (ensenso_camera cam @ [Name itmSerialNumber]) = Inr s
                     \<and> item_bool result [Name s, Name itmRetrieved] = Inr True))
             \<and> (monocular \<and> monocular_camera cam \<noteq> None \<longrightarrow>
                  (\<exists>m s. monocular_camera cam = Some m
                     \<and> item_string (root w') (m @ [Name itmSerialNumber]) = Inr s
                     \<and> item_bool result [Name s, Name itmRetrieved] = Inr True)))"
    using retrieve_sound by blast
next
  fix params result t'
  assume a: "stereo \<or> (monocular \<and> monocular_camera cam \<noteq> None)"
    and h: "issued (snd (retrieve ex cam trig timeout stereo monocular w)) =
           issued w @ [Execute (if trig then cmdCapture else cmdRetrieve) params]
       \<and> ex (if trig then cmdCapture else cmdRetrieve) params (root w) = (Inr result, t')
       \<and> (stereo \<longrightarrow>
            (\<exists>s. item_string t' (ensenso_camera cam @ [Name itmSerialNumber]) = Inr s
               \<and> item_bool result [Name s, Name itmRetrieved] = Inr True))
       \<and> (monocular \<and> monocular_camera cam \<noteq> None \<longrightarrow>
            (\<exists>m s. monocular_camera cam = Some m
               \<and> item_string t' (m @ [Name itmSerialNumber]) = Inr s
               \<and> item_bool result [Name s, Name itmRetrieved] = Inr True))"
  show "retrieve ex cam trig timeout stereo monocular w =
             (Inr True,
              \<lparr>root = t',
               issued = issued w @ [Execute (if trig then cmdCapture else cmdRetrieve) params]\<rparr>)"
    by (rule retrieve_complete [OF a]) (use h in blast)+
qed

theorem retrieve_all_addressed_witness:
  "retrieve demo_executor demo_camera True 1500 False False demo_world = (Inr True, demo_world)
   \<and> fst (retrieve demo_executor demo_camera True 1500 True True demo_world) = Inr True
   \<and> item_bool demo_result [Name ''S1'', Name itmRetrieved] = Inr True
   \<and> item_bool demo_result [Name ''M1'', Name itmRetrieved] = Inr True"
  using retrieve_all_addressed [of False False demo_camera demo_executor True 1500 demo_world]
    retrieve_all_addressed [of True True demo_camera demo_executor True 1500 demo_world]
  by (simp add: cam_simps demo_camera_def demo_world_def demo_executor_def demo_result_def
      item_string_def item_bool_def itmSerialNumber_def itmRetrieved_def)

lemma trigger_both_issued:
  assumes "monocular_camera cam = Some m"
    and "item_string (root w) (ensenso_camera cam @ [Name itmSerialNumber]) = Inr sn"
    and "item_string (root w) (m @ [Name itmSerialNumber]) = Inr msn"
  shows "issued (snd (trigger ex cam True True w)) =
           issued w @ [Execute cmdTrigger
             [([Name itmCameras, Idx 0], NxString sn), ([Name itmCameras, Idx 1], NxString msn)]]"
  using assms by (simp add: cam_simps split: prod.splits sum.splits)

lemma trigger_monocular_issued:
  assumes "monocular_camera cam = Some m"
    and "item_string (root w) (m @ [Name itmSerialNumber]) = Inr msn"
  shows "issued (snd (trigger ex cam False True w)) =
           issued w @ [Execute cmdTrigger [([Name itmCameras, Idx 0], NxString msn)]]"
  using assms by (simp add: cam_simps split: prod.splits sum.splits)

lemma retrieve_both_issued:
  assumes "monocular_camera cam = Some m"
    and "item_string (root w) (ensenso_camera cam @ [Name itmSerialNumber]) = Inr sn"
    and "item_string (root w) (m @ [Name itmSerialNumber]) = Inr msn"
  shows "issued (snd (retrieve ex cam trig timeout True True w)) =
           issued w @ [Execute (if trig then cmdCapture else cmdRetrieve)
             [([Name itmTimeout], NxInt timeout),
              ([Name itmCameras, Idx 0], NxString sn), ([Name itmCameras, Idx 1], NxString msn)]]"
  using assms by (simp add: cam_simps split: prod.splits sum.splits)

lemma retrieve_monocular_issued:
  assumes "monocular_camera cam = Some m"
    and "item_string (root w) (m @ [Name itmSerialNumber]) = Inr msn"
  shows "issued (snd (retrieve ex cam trig timeout False True w)) =
           issued w @ [Execute (if trig then cmdCapture else cmdRetrieve)
             [([Name itmTimeout], NxInt timeout), ([Name itmCameras, Idx 0], NxString msn)]]"
  using assms by (simp add: cam_simps split: prod.splits sum.splits)

text \<open>
  C4: when both cameras are addressed, the command that \<^verbatim>\<open>trigger\<close> and \<^verbatim>\<open>retrieve\<close>
  issue names the stereo camera's serial number at index 0 of \<^verbatim>\<open>Cameras\<close> and the
  monocular camera's at index 1; when only the monocular camera is addressed, its serial
  number stands at index 0. The command names no other camera.
\<close>

theorem camera_index_order:
  assumes "monocular_camera cam = Some m"
    and "item_string (root w) (ensenso_camera cam @ [Name itmSerialNumber]) = Inr sn"
    and "item_string (root w) (m @ [Name itmSerialNumber]) = Inr msn"
  shows "issued (snd (trigger ex cam True True w)) =
           issued w @ [Execute cmdTrigger
             [([Name itmCameras, Idx 0], NxString sn), ([Name itmCameras, Idx 1], NxString msn)]]
       \<and> issued (snd (trigger ex cam False True w)) =
           issued w @ [Execute cmdTrigger [([Name itmCameras, Idx 0], NxString msn)]]
       \<and> issued (snd (retrieve ex cam trig timeout True True w)) =
           issued w @ [Execute (if trig then cmdCapture else cmdRetrieve)
             [([Name itmTimeout], NxInt timeout),
              ([Name itmCameras, Idx 0], NxString sn), ([Name itmCameras, Idx 1], NxString msn)]]
       \<and> issued (snd (retrieve ex cam trig timeout False True w)) =
           issued w @ [Execute (if trig then cmdCapture else cmdRetrieve)
             [([Name itmTimeout], NxInt timeout), ([Name itmCameras, Idx 0], NxString msn)]]"
  using trigger_both_issued [OF assms] trigger_monocular_issued [OF assms(1,3)]
    retrieve_both_issued [OF assms] retrieve_monocular_issued [OF assms(1,3)]
  by blast

theorem camera_index_order_witness:
  "issued (snd (trigger demo_executor demo_camera True True demo_world)) =
     [Execute cmdTrigger [([Name itmCameras, Idx 0], NxString ''S1''), ([Name itmCameras, Idx 1], NxString ''M1'')]]
   \<and> issued (snd (retrieve demo_executor demo_camera True 1500 False True demo_world)) =
     [Execute cmdCapture [([Name itmTimeout], NxInt 1500), ([Name itmCameras, Idx 0], NxString ''M1'')]]"
  using camera_index_order [of demo_camera "[Name ''mono'']" demo_world "''S1''" "''M1''" demo_executor True 1500]
  by (simp add: demo_camera_def demo_world_def item_string_def itmSerialNumber_def)

text \<open>
  C10: \<^verbatim>\<open>trigger\<close> has no early return. With the stereo flag false and the monocular flag
  false, or narrowed to false because there is no monocular camera, it still executes a
  trigger command, whose parameters name no camera; it returns true when the command
  succeeds and raises the command's error otherwise. \<^verbatim>\<open>retrieve\<close> with the same flags
  returns true and issues nothing.
\<close>

theorem trigger_without_cameras:
  assumes "\<not> monocular \<or> monocular_camera cam = None"
  shows "trigger ex cam False monocular w =
      (case ex cmdTrigger [] (root w) of
         (Inl e, t') \<Rightarrow> (Inl e, \<lparr>root = t', issued = issued w @ [Execute cmdTrigger []]\<rparr>)
       | (Inr r, t') \<Rightarrow> (Inr True, \<lparr>root = t', issued = issued w @ [Execute cmdTrigger []]\<rparr>))
    \<and> retrieve ex cam trig timeout False monocular w = (Inr True, w)"
proof
  show "trigger ex cam False monocular w =
      (case ex cmdTrigger [] (root w) of
         (Inl e, t') \<Rightarrow> (Inl e, \<lparr>root = t', issued = issued w @ [Execute cmdTrigger []]\<rparr>)
       | (Inr r, t') \<Rightarrow> (Inr True, \<lparr>root = t', issued = issued w @ [Execute cmdTrigger []]\<rparr>))"
    using assms by (auto simp: cam_simps split: prod.splits sum.splits)
  show "retrieve ex cam trig timeout False monocular w = (Inr True, w)"
    using assms by (auto simp: cam_simps)
qed

theorem trigger_without_cameras_witness:
  "trigger demo_executor demo_camera False False demo_world =
     (Inr True, \<lparr>root = root demo_world, issued = [Execute cmdTrigger []]\<rparr>)
   \<and> retrieve demo_executor demo_camera True 1500 False False demo_world = (Inr True, demo_world)"
  using trigger_without_cameras [of False demo_camera demo_executor demo_world True 1500]
  by (simp add: demo_executor_def demo_world_def)

section \<open>The region of interest\<close>

lemma map_of_filter_keys:
  "map_of (filter (\<lambda>(q, v). P q) t) k = (if P k then map_of t k else None)"
  by (induction t) auto

lemma item_exists_iff: "item_exists t p \<longleftrightarrow> (\<exists>q. prefix p q \<and> map_of t q \<noteq> None)"
proof
  assume "item_exists t p"
  then obtain q v where "(q, v) \<in> set t" and "prefix p q"
    by (auto simp: item_exists_def list_ex_iff)
  then show "\<exists>q. prefix p q \<and> map_of t q \<noteq> None"
    using weak_map_of_SomeI by fastforce
next
  assume "\<exists>q. prefix p q \<and> map_of t q \<noteq> None"
  then obtain q v where "prefix p q" and "map_of t q = Some v" by auto
  then show "item_exists t p"
    by (auto simp: item_exists_def list_ex_iff dest!: map_of_SomeD)
qed

lemma not_exists_erased: "\<not> item_exists (filter (\<lambda>(q, v). \<not> prefix p q) t) p"
  by (simp add: item_exists_iff map_of_filter_keys)

lemmas item_names = itmParameters_def itmCapture_def itmDisparityMap_def itmAreaOfInterest_def
  itmUseDisparityMapAreaOfInterest_def itmLeftTop_def itmRightBottom_def

lemma setRegionOfInterest_unrestricted:
  assumes "area u = 0"
  shows "\<exists>w'. setRegionOfInterest cam u w = (Inr (), w')
     \<and> map_of (root w') (ensenso_camera cam @ [Name itmParameters, Name itmCapture, Name itmUseDisparityMapAreaOfInterest]) = Some (NxBool False)
     \<and> \<not> item_exists (root w') (ensenso_camera cam @ [Name itmParameters, Name itmDisparityMap, Name itmAreaOfInterest])"
proof (cases "item_exists (AList.update (ensenso_camera cam @ [Name itmParameters, Name itmCapture, Name itmUseDisparityMapAreaOfInterest]) (NxBool False) (root w))
     (ensenso_camera cam @ [Name itmParameters, Name itmDisparityMap, Name itmAreaOfInterest])")
  case True
  then show ?thesis using assms
    by (simp add: setRegionOfInterest_def nx_simps existsNx_def eraseNx_def bindM_def
        not_exists_erased map_of_filter_keys update_conv' item_names)
next
  case False
  then show ?thesis using assms
    by (simp add: setRegionOfInterest_def nx_simps existsNx_def eraseNx_def bindM_def update_conv')
qed

lemma setRegionOfInterest_rectangle:
  assumes "area r \<noteq> 0"
  shows "\<exists>w'. setRegionOfInterest cam r w = (Inr (), w')
     \<and> map_of (root w') (ensenso_camera cam @ [Name itmParameters, Name itmCapture, Name itmUseDisparityMapAreaOfInterest]) = Some (NxBool True)
     \<and> map_of (root w') (ensenso_camera cam @ [Name itmParameters, Name itmDisparityMap, Name itmAreaOfInterest, Name itmLeftTop, Idx 0]) = Some (NxInt (rect_x r))
     \<and> map_of (root w') (ensenso_camera cam @ [Name itmParameters, Name itmDisparityMap, Name itmAreaOfInterest, Name itmLeftTop, Idx 1]) = Some (NxInt (rect_y r))
     \<and> map_of (root w') (ensenso_camera cam @ [Name itmParameters, Name itmDisparityMap, Name itmAreaOfInterest, Name itmRightBottom, Idx 0]) = Some (NxInt (rect_x r + rect_width r))
     \<and> map_of (root w') (ensenso_camera cam @ [Name itmParameters, Name itmDisparityMap, Name itmAreaOfInterest, Name itmRightBottom, Idx 1]) = Some (NxInt (rect_y r + rect_height r))"
  using assms
  by (simp add: setRegionOfInterest_def nx_simps update_conv' tl_rect_def br_rect_def item_names)

lemma setRegionOfInterest_returns: "\<exists>w'. setRegionOfInterest cam r w = (Inr (), w')"
  by (simp add: setRegionOfInterest_def nx_simps existsNx_def eraseNx_def bindM_def)

lemma area_nonzero:
  assumes w: "0 <s rect_width r" and h: "0 <s rect_height r"
    and fits: "sint (rect_width r) * sint (rect_height r) < 2 ^ 31"
  shows "area r \<noteq> 0"
proof
  assume z: "area r = 0"
  let ?k = "sint (rect_width r) * sint (rect_height r)"
  have pos: "0 < ?k"
    using w h by (simp add: word_sless_alt)
  have eq: "area r = word_of_int ?k"
    by (simp add: area_def)
  have "(word_of_int ?k :: 32 word) = 0"
    by (rule trans [OF eq [symmetric] z])
  then have "(2::int) ^ LENGTH(32) dvd ?k"
    by (simp only: word_of_int_eq_0_iff)
  then have "(2::int) ^ 32 dvd ?k"
    by simp
  then have "(2::int) ^ 32 \<le> ?k"
    using pos by (rule zdvd_imp_le)
  with fits show False by simp
qed

text \<open>
  C8, as the code has it: for every rectangle \<open>r\<close> and every world,
  \<^verbatim>\<open>setRegionOfInterest\<close> with a rectangle of area 0 (the unrestricted region) after
  \<^verbatim>\<open>setRegionOfInterest\<close> with \<open>r\<close> succeeds, leaves the flag
  \<^verbatim>\<open>UseDisparityMapAreaOfInterest\<close> false and leaves no item at or below the
  \<^verbatim>\<open>AreaOfInterest\<close> node. With a rectangle whose area (\<^verbatim>\<open>width * height\<close> in the
  arithmetic of \<^verbatim>\<open>int\<close>) is not 0 it sets the flag to true and writes \<^verbatim>\<open>tl()\<close> to
  \<^verbatim>\<open>LeftTop\<close> and \<^verbatim>\<open>br()\<close> to \<^verbatim>\<open>RightBottom\<close>. A rectangle of positive width and
  height whose area fits an \<^verbatim>\<open>int\<close> is such a rectangle.
\<close>

theorem setRegionOfInterest_geometry:
  "(area u = 0 \<longrightarrow>
      (\<exists>w'. thenM (setRegionOfInterest cam r) (setRegionOfInterest cam u) w = (Inr (), w')
         \<and> map_of (root w') (ensenso_camera cam @ [Name itmParameters, Name itmCapture, Name itmUseDisparityMapAreaOfInterest]) = Some (NxBool False)
         \<and> \<not> item_exists (root w') (ensenso_camera cam @ [Name itmParameters, Name itmDisparityMap, Name itmAreaOfInterest])
         \<and> (\<forall>q. prefix (ensenso_camera cam @ [Name itmParameters, Name itmDisparityMap, Name itmAreaOfInterest]) q
                \<longrightarrow> map_of (root w') q = None)))
   \<and> (area r \<noteq> 0 \<longrightarrow>
      (\<exists>w'. setRegionOfInterest cam r w = (Inr (), w')
         \<and> map_of (root w') (ensenso_camera cam @ [Name itmParameters, Name itmCapture, Name itmUseDisparityMapAreaOfInterest]) = Some (NxBool True)
         \<and> map_of (root w') (ensenso_camera cam @ [Name itmParameters, Name itmDisparityMap, Name itmAreaOfInterest, Name itmLeftTop, Idx 0]) = Some (NxInt (rect_x r))
         \<and> map_of (root w') (ensenso_camera cam @ [Name itmParameters, Name itmDisparityMap, Name itmAreaOfInterest, Name itmLeftTop, Idx 1]) = Some (NxInt (rect_y r))
         \<and> map_of (root w') (ensenso_camera cam @ [Name itmParameters, Name itmDisparityMap, Name itmAreaOfInterest, Name itmRightBottom, Idx 0]) = Some (NxInt (rect_x r + rect_width r))
         \<and> map_of (root w') (ensenso_camera cam @ [Name itmParameters, Name itmDisparityMap, Name itmAreaOfInterest, Name itmRightBottom, Idx 1]) = Some (NxInt (rect_y r + rect_height r))))
   \<and> (0 <s rect_width r \<and> 0 <s rect_height r
        \<and> sint (rect_width r) * sint (rect_height r) < 2 ^ 31 \<longrightarrow> area r \<noteq> 0)"
proof (intro conjI impI)
  assume u: "area u = 0"
  obtain w1 where w1: "setRegionOfInterest cam r w = (Inr (), w1)"
    using setRegionOfInterest_returns by blast
  obtain w' where w': "setRegionOfInterest cam u w1 = (Inr (), w')"
    and flag: "map_of (root w') (ensenso_camera cam @ [Name itmParameters, Name itmCapture, Name itmUseDisparityMapAreaOfInterest]) = Some (NxBool False)"
    and gone: "\<not> item_exists (root w') (ensenso_camera cam @ [Name itmParameters, Name itmDisparityMap, Name itmAreaOfInterest])"
    using setRegionOfInterest_unrestricted [OF u] by blast
  have "thenM (setRegionOfInterest cam r) (setRegionOfInterest cam u) w = (Inr (), w')"
    using w1 w' by (simp add: thenM_def bindM_def)
  moreover have "\<forall>q. prefix (ensenso_camera cam @ [Name itmParameters, Name itmDisparityMap, Name itmAreaOfInterest]) q
                \<longrightarrow> map_of (root w') q = None"
    using gone by (auto simp: item_exists_iff)
  ultimately show "\<exists>w'. thenM (setRegionOfInterest cam r) (setRegionOfInterest cam u) w = (Inr (), w')
         \<and> map_of (root w') (ensenso_camera cam @ [Name itmParameters, Name itmCapture, Name itmUseDisparityMapAreaOfInterest]) = Some (NxBool False)
         \<and> \<not> item_exists (root w') (ensenso_camera cam @ [Name itmParameters, Name itmDisparityMap, Name itmAreaOfInterest])
         \<and> (\<forall>q. prefix (ensenso_camera cam @ [Name itmParameters, Name itmDisparityMap, Name itmAreaOfInterest]) q
                \<longrightarrow> map_of (root w') q = None)"
    using flag gone by blast
next
  assume "area r \<noteq> 0"
  then show "\<exists>w'. setRegionOfInterest cam r w = (Inr (), w')
         \<and> map_of (root w') (ensenso_camera cam @ [Name itmParameters, Name itmCapture, Name itmUseDisparityMapAreaOfInterest]) = Some (NxBool True)
         \<and> map_of (root w') (ensenso_camera cam @ [Name itmParameters, Name itmDisparityMap, Name itmAreaOfInterest, Name itmLeftTop, Idx 0]) = Some (NxInt (rect_x r))
         \<and> map_of (root w') (ensenso_camera cam @ [Name itmParameters, Name itmDisparityMap, Name itmAreaOfInterest, Name itmLeftTop, Idx 1]) = Some (NxInt (rect_y r))
         \<and> map_of (root w') (ensenso_camera cam @ [Name itmParameters, Name itmDisparityMap, Name itmAreaOfInterest, Name itmRightBottom, Idx 0]) = Some (NxInt (rect_x r + rect_width r))
         \<and> map_of (root w') (ensenso_camera cam @ [Name itmParameters, Name itmDisparityMap, Name itmAreaOfInterest, Name itmRightBottom, Idx 1]) = Some (NxInt (rect_y r + rect_height r))"
    by (rule setRegionOfInterest_rectangle)
next
  assume "0 <s rect_width r \<and> 0 <s rect_height r
        \<and> sint (rect_width r) * sint (rect_height r) < 2 ^ 31"
  then show "area r \<noteq> 0"
    using area_nonzero by blast
qed

theorem setRegionOfInterest_geometry_witness:
  "area unrestricted_roi = 0 \<and> area demo_roi \<noteq> 0
   \<and> root (snd (thenM (setRegionOfInterest demo_camera demo_roi)
                   (setRegionOfInterest demo_camera unrestricted_roi) demo_world)) =
       root demo_world @
         [([Name ''stereo'', Name itmParameters, Name itmCapture, Name itmUseDisparityMapAreaOfInterest], NxBool False)]
   \<and> map_of (root (snd (setRegionOfInterest demo_camera demo_roi demo_world)))
        [Name ''stereo'', Name itmParameters, Name itmDisparityMap, Name itmAreaOfInterest, Name itmRightBottom, Idx 0]
       = Some (NxInt 100)"
  using setRegionOfInterest_geometry [of unrestricted_roi demo_camera demo_roi demo_world]
  by (simp add: setRegionOfInterest_def nx_simps existsNx_def eraseNx_def bindM_def item_exists_def
      area_def tl_rect_def br_rect_def demo_roi_def unrestricted_roi_def demo_camera_def demo_world_def
      item_names itmSerialNumber_def itmFlexView_def itmLink_def itmTarget_def)

text \<open>
  The claim that every non-empty rectangle gets the flag set to true and its corners
  written fails: the rectangle at (3, 4) of width and height 65536 has positive width
  and height, its area wraps to 0, and \<^verbatim>\<open>setRegionOfInterest\<close> takes it for the
  unrestricted region: the flag is set to false and no corner is written.
\<close>

theorem setRegionOfInterest_counterexample:
  "0 <s rect_width wrapping_roi
   \<and> 0 <s rect_height wrapping_roi
   \<and> area wrapping_roi = 0
   \<and> setRegionOfInterest demo_camera wrapping_roi demo_world =
       (Inr (),
        \<lparr>root = root demo_world @
           [([Name ''stereo'', Name itmParameters, Name itmCapture, Name itmUseDisparityMapAreaOfInterest],
             NxBool False)],
         issued =
           [SetItem [Name ''stereo'', Name itmParameters, Name itmCapture, Name itmUseDisparityMapAreaOfInterest]
              (NxBool False)]\<rparr>)"
  by (simp add: setRegionOfInterest_def nx_simps existsNx_def eraseNx_def bindM_def item_exists_def
      area_def wrapping_roi_def demo_camera_def demo_world_def word_sless_alt
      item_names itmSerialNumber_def itmFlexView_def itmLink_def itmTarget_def)

section \<open>Recording a calibration pattern\<close>


lemma bindM_Inr: "m w = (Inr x, w') \<Longrightarrow> bindM m f w = f x w'"
  by (simp add: bindM_def)

lemma item_string_update_other:
  "p \<noteq> q \<Longrightarrow> item_string (AList.update p v t) q = item_string t q"
  by (simp add: item_string_def update_conv')



section \<open>Clearing the workspace calibration\<close>

lemma getWorkspaceCalibrationFrame_apply:
  "getWorkspaceCalibrationFrame cam w =
     (Inr (fst (asString (root w) (ensenso_camera cam @ [Name itmLink, Name itmTarget]))), w)"
  by (auto simp: getWorkspaceCalibrationFrame_def asString_def
      split: prod.splits option.splits nxvalue.splits)

lemma asString_update_same: "asString (AList.update p (NxString s) t) p = (s, False)"
  by (simp add: asString_def update_conv')

lemma clearWorkspaceCalibration_inactive:
  assumes "getWorkspaceCalibrationFrame cam w = (Inr [], w)"
  shows "clearWorkspaceCalibration ex cam store w = (Inr (), w)"
  using assms by (simp add: clearWorkspaceCalibration_def bindM_def returnM_def)

lemma clearWorkspaceCalibration_active:
  assumes frame: "getWorkspaceCalibrationFrame cam w = (Inr frame, w)" and "frame \<noteq> []"
    and serial: "item_string (root w) (ensenso_camera cam @ [Name itmSerialNumber]) = Inr sn"
    and clear: "ex cmdCalibrateWorkspace
                  [([Name itmCameras, Idx 0], NxString sn), ([Name itmTarget], NxString [])] (root w)
                = (Inr cleared, after_clear)"
    and serial': "item_string after_clear (ensenso_camera cam @ [Name itmSerialNumber]) = Inr sn'"
    and target: "target = ensenso_camera cam @ [Name itmLink, Name itmTarget]"
    and w': "w' = \<lparr>root = AList.update target (NxString (sn' @ ''_frame'')) after_clear,
                    issued = issued w @
                      [Execute cmdCalibrateWorkspace
                         [([Name itmCameras, Idx 0], NxString sn), ([Name itmTarget], NxString [])],
                       SetItem target (NxString (sn' @ ''_frame''))]\<rparr>"
  shows "clearWorkspaceCalibration ex cam store w =
           (if store then storeWorkspaceCalibration ex cam w' else (Inr (), w'))"
  using assms
  by (simp add: clearWorkspaceCalibration_def serialNumber_def nx_simps bindM_def
      itmCameras_def itmTarget_def)

lemma storeWorkspaceCalibration_issued:
  assumes "item_string (root w) (ensenso_camera cam @ [Name itmSerialNumber]) = Inr sn"
  shows "issued (snd (storeWorkspaceCalibration ex cam w)) =
     issued w @ [Execute cmdStoreCalibration
        [([Name itmCameras, Idx 0], NxString sn),
         ([Name itmCalibration, Idx 0], NxBool True),
         ([Name itmLink, Idx 0], NxBool True)]]"
  using assms
  by (simp add: storeWorkspaceCalibration_def serialNumber_def nx_simps bindM_def
      itmCameras_def itmCalibration_def itmLink_def split: prod.splits sum.splits)

lemma frame_after_clear:
  "getWorkspaceCalibrationFrame cam
     \<lparr>root = AList.update (ensenso_camera cam @ [Name itmLink, Name itmTarget]) (NxString (s @ ''_frame'')) t,
      issued = evs\<rparr>
   = (Inr (s @ ''_frame''),
      \<lparr>root = AList.update (ensenso_camera cam @ [Name itmLink, Name itmTarget]) (NxString (s @ ''_frame'')) t,
      issued = evs\<rparr>)"
  by (simp add: getWorkspaceCalibrationFrame_apply asString_update_same)

text \<open>
  With a non-empty frame name \<^verbatim>\<open>getWorkspaceCalibration\<close> does not return none: it reads the
  link transform, and fails when there is none to read.
\<close>

lemma getWorkspaceCalibration_not_none:
  assumes "getWorkspaceCalibrationFrame cam w = (Inr frame, w)" and "frame \<noteq> []"
  shows "fst (getWorkspaceCalibration cam w) \<noteq> Inr None"
  using assms
  by (simp add: getWorkspaceCalibration_def nx_simps bindM_def split: sum.splits)

text \<open>
  C7, as the code has it: \<^verbatim>\<open>clearWorkspaceCalibration\<close> returns at once, issuing nothing,
  when the frame name read from \<^verbatim>\<open>Link/Target\<close> is empty. Otherwise it executes
  \<^verbatim>\<open>CalibrateWorkspace\<close> on the camera's serial number with an empty target and then
  writes \<open>serial @ ''_frame''\<close> to \<^verbatim>\<open>Link/Target\<close>. After that write the frame name read
  back is this non-empty name. The \<^verbatim>\<open>StoreCalibration\<close> command follows when \<open>store\<close> is
  true, and only then.
\<close>

theorem clearWorkspaceCalibration_sentinel:
  "(fst (getWorkspaceCalibrationFrame cam w) = Inr [] \<longrightarrow>
      clearWorkspaceCalibration ex cam store w = (Inr (), w))
   \<and> (fst (getWorkspaceCalibrationFrame cam w) \<noteq> Inr []
      \<and> item_string (root w) (ensenso_camera cam @ [Name itmSerialNumber]) = Inr sn
      \<and> ex cmdCalibrateWorkspace
           [([Name itmCameras, Idx 0], NxString sn), ([Name itmTarget], NxString [])] (root w)
         = (Inr cleared, after_clear)
      \<and> item_string after_clear (ensenso_camera cam @ [Name itmSerialNumber]) = Inr sn'
      \<and> w' = \<lparr>root = AList.update (ensenso_camera cam @ [Name itmLink, Name itmTarget])
                         (NxString (sn' @ ''_frame'')) after_clear,
                issued = issued w @
                  [Execute cmdCalibrateWorkspace
                     [([Name itmCameras, Idx 0], NxString sn), ([Name itmTarget], NxString [])],
                   SetItem (ensenso_camera cam @ [Name itmLink, Name itmTarget])
                     (NxString (sn' @ ''_frame''))]\<rparr>
      \<longrightarrow>
        clearWorkspaceCalibration ex cam False w = (Inr (), w')
      \<and> fst (getWorkspaceCalibrationFrame cam w') = Inr (sn' @ ''_frame'')
      \<and> clearWorkspaceCalibration ex cam True w = storeWorkspaceCalibration ex cam w'
      \<and> issued (snd (clearWorkspaceCalibration ex cam True w)) =
          issued w' @ [Execute cmdStoreCalibration
            [([Name itmCameras, Idx 0], NxString sn'),
             ([Name itmCalibration, Idx 0], NxBool True),
             ([Name itmLink, Idx 0], NxBool True)]])"
proof (intro conjI impI)
  assume "fst (getWorkspaceCalibrationFrame cam w) = Inr []"
  then have "getWorkspaceCalibrationFrame cam w = (Inr [], w)"
    by (simp add: getWorkspaceCalibrationFrame_apply)
  then show "clearWorkspaceCalibration ex cam store w = (Inr (), w)"
    by (rule clearWorkspaceCalibration_inactive)
next
  assume a: "fst (getWorkspaceCalibrationFrame cam w) \<noteq> Inr []
      \<and> item_string (root w) (ensenso_camera cam @ [Name itmSerialNumber]) = Inr sn
      \<and> ex cmdCalibrateWorkspace
           [([Name itmCameras, Idx 0], NxString sn), ([Name itmTarget], NxString [])] (root w)
         = (Inr cleared, after_clear)
      \<and> item_string after_clear (ensenso_camera cam @ [Name itmSerialNumber]) = Inr sn'
      \<and> w' = \<lparr>root = AList.update (ensenso_camera cam @ [Name itmLink, Name itmTarget])
                         (NxString (sn' @ ''_frame'')) after_clear,
                issued = issued w @
                  [Execute cmdCalibrateWorkspace
                     [([Name itmCameras, Idx 0], NxString sn), ([Name itmTarget], NxString [])],
                   SetItem (ensenso_camera cam @ [Name itmLink, Name itmTarget])
                     (NxString (sn' @ ''_frame''))]\<rparr>"
  obtain frame where frame: "getWorkspaceCalibrationFrame cam w = (Inr frame, w)" and ne: "frame \<noteq> []"
    using a by (simp add: getWorkspaceCalibrationFrame_apply)
  have w': "w' = \<lparr>root = AList.update (ensenso_camera cam @ [Name itmLink, Name itmTarget])
                         (NxString (sn' @ ''_frame'')) after_clear,
                issued = issued w @
                  [Execute cmdCalibrateWorkspace
                     [([Name itmCameras, Idx 0], NxString sn), ([Name itmTarget], NxString [])],
                   SetItem (ensenso_camera cam @ [Name itmLink, Name itmTarget])
                     (NxString (sn' @ ''_frame''))]\<rparr>"
    using a by blast
  have clear: "clearWorkspaceCalibration ex cam store' w =
           (if store' then storeWorkspaceCalibration ex cam w' else (Inr (), w'))" for store'
    using clearWorkspaceCalibration_active [OF frame ne _ _ _ refl w'] a by blast
  show "clearWorkspaceCalibration ex cam False w = (Inr (), w')"
    using clear [of False] by simp
  show stored: "clearWorkspaceCalibration ex cam True w = storeWorkspaceCalibration ex cam w'"
    using clear [of True] by simp
  have "getWorkspaceCalibrationFrame cam w' = (Inr (sn' @ ''_frame''), w')"
    unfolding w' by (rule frame_after_clear)
  then show "fst (getWorkspaceCalibrationFrame cam w') = Inr (sn' @ ''_frame'')"
    by simp
  have "item_string (root w') (ensenso_camera cam @ [Name itmSerialNumber]) = Inr sn'"
    using a by (simp add: w' item_string_update_other)
  then show "issued (snd (clearWorkspaceCalibration ex cam True w)) =
          issued w' @ [Execute cmdStoreCalibration
            [([Name itmCameras, Idx 0], NxString sn'),
             ([Name itmCalibration, Idx 0], NxBool True),
             ([Name itmLink, Idx 0], NxBool True)]]"
    unfolding stored by (rule storeWorkspaceCalibration_issued)
qed

text \<open>
  The claim that \<^verbatim>\<open>getWorkspaceCalibration\<close> returns none after the workspace has been
  cleared fails: on the concrete session, after \<^verbatim>\<open>clearWorkspaceCalibration(false)\<close> it
  returns the link transform, scaled to meters.
\<close>

theorem clearWorkspaceCalibration_counterexample:
  "fst (getWorkspaceCalibrationFrame demo_camera demo_world) = Inr ''Workspace''
   \<and> fst (clearWorkspaceCalibration demo_executor demo_camera False demo_world) = Inr ()
   \<and> fst (getWorkspaceCalibration demo_camera
             (snd (clearWorkspaceCalibration demo_executor demo_camera False demo_world)))
       = Inr (Some \<lparr>rotation = ((0, - 1, 0), (1, 0, 0), (0, 0, 1)), translation = (1 / 10, 1 / 5, 3 / 10)\<rparr>)"
  by (simp add: clearWorkspaceCalibration_def getWorkspaceCalibration_def getWorkspaceCalibrationFrame_apply
      asString_def item_string_def item_pose_def serialNumber_def nx_simps bindM_def
      demo_camera_def demo_world_def demo_executor_def demo_pose_def scale_translation_def
      itmSerialNumber_def itmParameters_def itmLink_def itmTarget_def itmCameras_def)

theorem clearWorkspaceCalibration_sentinel_witness:
  "fst (getWorkspaceCalibrationFrame demo_camera demo_world) \<noteq> Inr []
   \<and> clearWorkspaceCalibration demo_executor demo_camera False demo_world =
      (Inr (),
       \<lparr>root = AList.update [Name ''stereo'', Name itmLink, Name itmTarget] (NxString ''S1_frame'') (root demo_world),
        issued = [Execute cmdCalibrateWorkspace
                    [([Name itmCameras, Idx 0], NxString ''S1''), ([Name itmTarget], NxString [])],
                  SetItem [Name ''stereo'', Name itmLink, Name itmTarget] (NxString ''S1_frame'')]\<rparr>)
   \<and> issued (snd (clearWorkspaceCalibration demo_executor demo_camera True demo_world)) =
        [Execute cmdCalibrateWorkspace
           [([Name itmCameras, Idx 0], NxString ''S1''), ([Name itmTarget], NxString [])],
         SetItem [Name ''stereo'', Name itmLink, Name itmTarget] (NxString ''S1_frame''),
         Execute cmdStoreCalibration
            [([Name itmCameras, Idx 0], NxString ''S1''),
             ([Name itmCalibration, Idx 0], NxBool True),
             ([Name itmLink, Idx 0], NxBool True)]]
   \<and> clearWorkspaceCalibration demo_executor demo_camera True
        \<lparr>root = [([Name ''stereo'', Name itmSerialNumber], NxString ''S1'')], issued = []\<rparr> =
      (Inr (), \<lparr>root = [([Name ''stereo'', Name itmSerialNumber], NxString ''S1'')], issued = []\<rparr>)"
  using clearWorkspaceCalibration_sentinel
    [where cam = demo_camera and w = demo_world and ex = demo_executor and sn = "''S1''" and sn' = "''S1''"
       and cleared = demo_result and after_clear = "root demo_world"
       and w' = "\<lparr>root = AList.update (ensenso_camera demo_camera @ [Name itmLink, Name itmTarget])
                         (NxString (''S1'' @ ''_frame'')) (root demo_world),
                issued = issued demo_world @
                  [Execute cmdCalibrateWorkspace
                     [([Name itmCameras, Idx 0], NxString ''S1''), ([Name itmTarget], NxString [])],
                   SetItem (ensenso_camera demo_camera @ [Name itmLink, Name itmTarget])
                     (NxString (''S1'' @ ''_frame''))]\<rparr>"]
    clearWorkspaceCalibration_sentinel
    [where cam = demo_camera and ex = demo_executor and store = True
       and w = "\<lparr>root = [([Name ''stereo'', Name itmSerialNumber], NxString ''S1'')], issued = []\<rparr>"]
  by (simp add: getWorkspaceCalibrationFrame_apply asString_def item_string_def
      storeWorkspaceCalibration_def serialNumber_def nx_simps bindM_def
      demo_camera_def demo_world_def demo_executor_def
      itmSerialNumber_def itmParameters_def itmLink_def itmTarget_def itmCameras_def itmCalibration_def)

section \<open>Hand-eye calibration\<close>

lemma fold_transformations_name:
  "command_name (fold (\<lambda>i. setParam [Name itmTransformations, Idx i] (NxPose (f i))) [0 ..< n] c)
     = command_name c"
  by (induction n) (simp_all add: setParam_def)

lemma fold_transformations_at:
  "map_of (parameters (fold (\<lambda>i. setParam [Name itmTransformations, Idx i] (NxPose (f i))) [0 ..< n] c))
      [Name itmTransformations, Idx i]
     = (if i < n then Some (NxPose (f i)) else map_of (parameters c) [Name itmTransformations, Idx i])"
  by (induction n) (auto simp: setParam_def update_conv' less_Suc_eq)

lemma fold_transformations_other:
  assumes "\<And>i. p \<noteq> [Name itmTransformations, Idx i]"
  shows "map_of (parameters (fold (\<lambda>i. setParam [Name itmTransformations, Idx i] (NxPose (f i))) [0 ..< n] c)) p
     = map_of (parameters c) p"
  using assms by (induction n) (auto simp: setParam_def update_conv')

lemma handEyeCommand_name:
  "command_name (handEyeCommand robot_poses moving camera_guess pattern_guess target) = cmdCalibrateHandEye"
  by (simp add: handEyeCommand_def Let_def fold_transformations_name setParam_def newCommand_def
      split: option.splits)

lemma handEyeCommand_transformations:
  "map_of (parameters (handEyeCommand robot_poses moving camera_guess pattern_guess target))
      [Name itmTransformations, Idx i]
   = (if i < length robot_poses then Some (NxPose (scale_translation 1000 (robot_poses ! i))) else None)"
  by (simp add: handEyeCommand_def Let_def fold_transformations_at setParam_def newCommand_def update_conv'
      split: option.splits)

lemmas solver_names = itmLink_def itmPatternPose_def itmSetup_def itmTarget_def

lemma handEyeCommand_camera_guess:
  "map_of (parameters (handEyeCommand robot_poses moving (Some g) pattern_guess target)) [Name itmLink]
   = Some (NxPose (scale_translation 1000 g))"
  by (simp add: handEyeCommand_def Let_def fold_transformations_other setParam_def newCommand_def update_conv'
      solver_names split: option.splits)

lemma handEyeCommand_pattern_guess:
  "map_of (parameters (handEyeCommand robot_poses moving camera_guess (Some g) target)) [Name itmPatternPose]
   = Some (NxPose (scale_translation 1000 g))"
  by (simp add: handEyeCommand_def Let_def fold_transformations_other setParam_def newCommand_def update_conv'
      solver_names split: option.splits)

lemma computeCalibration_apply:
  "computeCalibration ex cam robot_poses moving camera_guess pattern_guess target =
     bindM (executeNx ex (handEyeCommand robot_poses moving camera_guess pattern_guess target)) (\<lambda>result.
      bindM (getNx item_pose (ensenso_camera cam @ [Name itmLink])) (\<lambda>link.
      bindM (getNxOf item_pose result [Name itmPatternPose]) (\<lambda>pattern.
      bindM (getNxOf item_int result [Name itmIterations]) (\<lambda>iterations.
      bindM (getNxOf item_double result [Name itmReprojectionError]) (\<lambda>reprojection_error.
      returnM (scale_translation (1 / 1000) (inverse_isometry link),
               scale_translation (1 / 1000) pattern, iterations, reprojection_error))))))"
  by (simp add: computeCalibration_def handEyeCommand_def Let_def)

lemma computeCalibration_issued:
  "issued (snd (computeCalibration ex cam robot_poses moving camera_guess pattern_guess target w))
   = issued w @ [Execute cmdCalibrateHandEye
        (parameters (handEyeCommand robot_poses moving camera_guess pattern_guess target))]"
  by (simp add: computeCalibration_apply bindM_def executeNx_def getNx_def getNxOf_def returnM_def
      handEyeCommand_name split: prod.splits sum.splits)

lemma computeCalibration_fails:
  assumes "ex cmdCalibrateHandEye
      (parameters (handEyeCommand robot_poses moving camera_guess pattern_guess target)) (root w) = (Inl e, t')"
  shows "fst (computeCalibration ex cam robot_poses moving camera_guess pattern_guess target w) = Inl e"
  using assms
  by (simp add: computeCalibration_apply bindM_def executeNx_def handEyeCommand_name)

lemma computeCalibration_succeeds:
  assumes "ex cmdCalibrateHandEye
      (parameters (handEyeCommand robot_poses moving camera_guess pattern_guess target)) (root w) = (Inr result, t')"
    and "item_pose t' (ensenso_camera cam @ [Name itmLink]) = Inr link"
    and "item_pose result [Name itmPatternPose] = Inr pattern"
    and "item_int result [Name itmIterations] = Inr iterations"
    and "item_double result [Name itmReprojectionError] = Inr reprojection_error"
  shows "fst (computeCalibration ex cam robot_poses moving camera_guess pattern_guess target w) =
     Inr (scale_translation (1 / 1000) (inverse_isometry link),
          scale_translation (1 / 1000) pattern, iterations, reprojection_error)"
  using assms
  by (simp add: computeCalibration_apply bindM_def executeNx_def getNx_def getNxOf_def returnM_def
      handEyeCommand_name)

lemma scale_translation_parts:
  "rotation (scale_translation k p) = rotation p"
  "translation (scale_translation k p) =
     (fst (translation p) * k, fst (snd (translation p)) * k, snd (snd (translation p)) * k)"
  by (simp_all add: scale_translation_def split: prod.splits)

text \<open>
  C2: the hand-eye command that \<^verbatim>\<open>computeCalibration\<close> issues carries the camera guess
  under \<^verbatim>\<open>Link\<close>, the pattern guess under \<^verbatim>\<open>PatternPose\<close> and robot pose \<open>i\<close> under
  \<^verbatim>\<open>Transformations[i]\<close>, each with its translation multiplied by 1000 and its rotation
  unchanged. When the command succeeds and its results can be read, the result is: the
  inverse of the link transform read back from the camera node, and the pattern pose of
  the command's result, both with the translation multiplied by 1/1000, together with the
  iteration count and the reprojection error of the command's result.
\<close>

theorem computeCalibration_units:
  "\<exists>params.
     issued (snd (computeCalibration ex cam robot_poses moving camera_guess pattern_guess target w))
       = issued w @ [Execute cmdCalibrateHandEye params]
   \<and> (\<forall>g. camera_guess = Some g \<longrightarrow>
          map_of params [Name itmLink] = Some (NxPose (scale_translation 1000 g)))
   \<and> (\<forall>g. pattern_guess = Some g \<longrightarrow>
          map_of params [Name itmPatternPose] = Some (NxPose (scale_translation 1000 g)))
   \<and> (\<forall>i < length robot_poses.
          map_of params [Name itmTransformations, Idx i]
            = Some (NxPose (scale_translation 1000 (robot_poses ! i))))
   \<and> (\<forall>result t' link pattern iterations reprojection_error.
          ex cmdCalibrateHandEye params (root w) = (Inr result, t')
        \<and> item_pose t' (ensenso_camera cam @ [Name itmLink]) = Inr link
        \<and> item_pose result [Name itmPatternPose] = Inr pattern
        \<and> item_int result [Name itmIterations] = Inr iterations
        \<and> item_double result [Name itmReprojectionError] = Inr reprojection_error
        \<longrightarrow> fst (computeCalibration ex cam robot_poses moving camera_guess pattern_guess target w)
              = Inr (scale_translation (1 / 1000) (inverse_isometry link),
                     scale_translation (1 / 1000) pattern, iterations, reprojection_error))
   \<and> (\<forall>k p. rotation (scale_translation k p) = rotation p
          \<and> translation (scale_translation k p) =
              (fst (translation p) * k, fst (snd (translation p)) * k, snd (snd (translation p)) * k))"
proof (rule exI [of _ "parameters (handEyeCommand robot_poses moving camera_guess pattern_guess target)"],
    intro conjI allI impI)
  show "issued (snd (computeCalibration ex cam robot_poses moving camera_guess pattern_guess target w))
       = issued w @ [Execute cmdCalibrateHandEye
           (parameters (handEyeCommand robot_poses moving camera_guess pattern_guess target))]"
    by (rule computeCalibration_issued)
next
  fix g assume "camera_guess = Some g"
  then show "map_of (parameters (handEyeCommand robot_poses moving camera_guess pattern_guess target))
      [Name itmLink] = Some (NxPose (scale_translation 1000 g))"
    by (simp add: handEyeCommand_camera_guess)
next
  fix g assume "pattern_guess = Some g"
  then show "map_of (parameters (handEyeCommand robot_poses moving camera_guess pattern_guess target))
      [Name itmPatternPose] = Some (NxPose (scale_translation 1000 g))"
    by (simp add: handEyeCommand_pattern_guess)
next
  fix i assume "i < length robot_poses"
  then show "map_of (parameters (handEyeCommand robot_poses moving camera_guess pattern_guess target))
      [Name itmTransformations, Idx i] = Some (NxPose (scale_translation 1000 (robot_poses ! i)))"
    by (simp add: handEyeCommand_transformations)
next
  fix result t' link pattern iterations reprojection_error
  assume "ex cmdCalibrateHandEye
            (parameters (handEyeCommand robot_poses moving camera_guess pattern_guess target)) (root w)
            = (Inr result, t')
        \<and> item_pose t' (ensenso_camera cam @ [Name itmLink]) = Inr link
        \<and> item_pose result [Name itmPatternPose] = Inr pattern
        \<and> item_int result [Name itmIterations] = Inr iterations
        \<and> item_double result [Name itmReprojectionError] = Inr reprojection_error"
  then show "fst (computeCalibration ex cam robot_poses moving camera_guess pattern_guess target w)
              = Inr (scale_translation (1 / 1000) (inverse_isometry link),
                     scale_translation (1 / 1000) pattern, iterations, reprojection_error)"
    using computeCalibration_succeeds by blast
qed (simp_all add: scale_translation_parts)

lemma computeCalibration_failure_cause:
  assumes "fst (computeCalibration ex cam robot_poses moving camera_guess pattern_guess target w) = Inl e"
  shows "fst (ex cmdCalibrateHandEye
            (parameters (handEyeCommand robot_poses moving camera_guess pattern_guess target)) (root w)) = Inl e
       \<or> (\<exists>result t'.
            ex cmdCalibrateHandEye
              (parameters (handEyeCommand robot_poses moving camera_guess pattern_guess target)) (root w)
              = (Inr result, t')
          \<and> (item_pose t' (ensenso_camera cam @ [Name itmLink]) = Inl e
             \<or> item_pose result [Name itmPatternPose] = Inl e
             \<or> item_int result [Name itmIterations] = Inl e
             \<or> item_double result [Name itmReprojectionError] = Inl e))"
  using assms
  by (auto simp: computeCalibration_apply bindM_def executeNx_def getNx_def getNxOf_def returnM_def
      handEyeCommand_name split: prod.splits sum.splits)

text \<open>
  C1, as the code has it: \<^verbatim>\<open>computeCalibration\<close> does not look at the number of robot poses
  and has no failure of its own. For every input it issues exactly one command, the
  hand-eye command, whose \<^verbatim>\<open>Transformations\<close> are exactly the supplied poses (none when the
  list is empty). When that command fails, it fails with the command's error; when the
  command succeeds and its results can be read, it returns the result, whatever the
  number of poses; and it fails only with the error of the command or of one of the four
  reads of its results.
\<close>

theorem computeCalibration_no_validation:
  "\<exists>params.
     issued (snd (computeCalibration ex cam robot_poses moving camera_guess pattern_guess target w))
       = issued w @ [Execute cmdCalibrateHandEye params]
   \<and> (\<forall>i. map_of params [Name itmTransformations, Idx i]
            = (if i < length robot_poses
               then Some (NxPose (scale_translation 1000 (robot_poses ! i))) else None))
   \<and> (\<forall>e t'. ex cmdCalibrateHandEye params (root w) = (Inl e, t') \<longrightarrow>
          fst (computeCalibration ex cam robot_poses moving camera_guess pattern_guess target w) = Inl e)
   \<and> (\<forall>result t' link pattern iterations reprojection_error.
          ex cmdCalibrateHandEye params (root w) = (Inr result, t')
        \<and> item_pose t' (ensenso_camera cam @ [Name itmLink]) = Inr link
        \<and> item_pose result [Name itmPatternPose] = Inr pattern
        \<and> item_int result [Name itmIterations] = Inr iterations
        \<and> item_double result [Name itmReprojectionError] = Inr reprojection_error
        \<longrightarrow> fst (computeCalibration ex cam robot_poses moving camera_guess pattern_guess target w)
              = Inr (scale_translation (1 / 1000) (inverse_isometry link),
                     scale_translation (1 / 1000) pattern, iterations, reprojection_error))
   \<and> (\<forall>e. fst (computeCalibration ex cam robot_poses moving camera_guess pattern_guess target w) = Inl e
        \<longrightarrow> fst (ex cmdCalibrateHandEye params (root w)) = Inl e
          \<or> (\<exists>result t'.
                ex cmdCalibrateHandEye params (root w) = (Inr result, t')
              \<and> (item_pose t' (ensenso_camera cam @ [Name itmLink]) = Inl e
                 \<or> item_pose result [Name itmPatternPose] = Inl e
                 \<or> item_int result [Name itmIterations] = Inl e
                 \<or> item_double result [Name itmReprojectionError] = Inl e)))"
proof (rule exI [of _ "parameters (handEyeCommand robot_poses moving camera_guess pattern_guess target)"],
    intro conjI allI impI)
  let ?params = "parameters (handEyeCommand robot_poses moving camera_guess pattern_guess target)"
  show "issued (snd (computeCalibration ex cam robot_poses moving camera_guess pattern_guess target w))
       = issued w @ [Execute cmdCalibrateHandEye ?params]"
    by (rule computeCalibration_issued)
  show "map_of ?params [Name itmTransformations, Idx i]
            = (if i < length robot_poses
               then Some (NxPose (scale_translation 1000 (robot_poses ! i))) else None)" for i
    by (rule handEyeCommand_transformations)
  show "fst (computeCalibration ex cam robot_poses moving camera_guess pattern_guess target w) = Inl e"
    if "ex cmdCalibrateHandEye ?params (root w) = (Inl e, t')" for e t'
    using that by (rule computeCalibration_fails)
  show "fst (computeCalibration ex cam robot_poses moving camera_guess pattern_guess target w)
              = Inr (scale_translation (1 / 1000) (inverse_isometry link),
                     scale_translation (1 / 1000) pattern, iterations, reprojection_error)"
    if "ex cmdCalibrateHandEye ?params (root w) = (Inr result, t')
        \<and> item_pose t' (ensenso_camera cam @ [Name itmLink]) = Inr link
        \<and> item_pose result [Name itmPatternPose] = Inr pattern
        \<and> item_int result [Name itmIterations] = Inr iterations
        \<and> item_double result [Name itmReprojectionError] = Inr reprojection_error"
    for result t' link pattern iterations reprojection_error
    using that computeCalibration_succeeds by blast
  show "fst (ex cmdCalibrateHandEye ?params (root w)) = Inl e
          \<or> (\<exists>result t'.
                ex cmdCalibrateHandEye ?params (root w) = (Inr result, t')
              \<and> (item_pose t' (ensenso_camera cam @ [Name itmLink]) = Inl e
                 \<or> item_pose result [Name itmPatternPose] = Inl e
                 \<or> item_int result [Name itmIterations] = Inl e
                 \<or> item_double result [Name itmReprojectionError] = Inl e))"
    if "fst (computeCalibration ex cam robot_poses moving camera_guess pattern_guess target w) = Inl e" for e
    using that by (rule computeCalibration_failure_cause)
qed

lemmas demo_defs = demo_camera_def demo_world_def demo_executor_def demo_result_def demo_pose_def

lemmas all_names = itmSerialNumber_def itmParameters_def itmCapture_def itmFlexView_def
  itmFrontLight_def itmProjector_def itmCameras_def itmTimeout_def itmTriggered_def itmRetrieved_def
  itmLink_def itmTarget_def itmPatternPose_def itmSetup_def itmTransformations_def itmIterations_def
  itmReprojectionError_def itmCalibration_def itmDecodeData_def

theorem computeCalibration_units_witness:
  "computeCalibration demo_executor demo_camera [demo_pose] True (Some demo_pose) None ''Hand'' demo_world =
     (Inr (\<lparr>rotation = ((0, 1, 0), (- 1, 0, 0), (0, 0, 1)), translation = (- (1 / 5), 1 / 10, - (3 / 10))\<rparr>,
           \<lparr>rotation = ((0, - 1, 0), (1, 0, 0), (0, 0, 1)), translation = (1 / 10, 1 / 5, 3 / 10)\<rparr>,
           7, 1 / 4),
      \<lparr>root = root demo_world,
       issued = [Execute cmdCalibrateHandEye
         [([Name itmLink],
             NxPose \<lparr>rotation = ((0, - 1, 0), (1, 0, 0), (0, 0, 1)), translation = (100000, 200000, 300000)\<rparr>),
          ([Name itmSetup], NxString valMoving),
          ([Name itmTarget], NxString ''Hand''),
          ([Name itmTransformations, Idx 0],
             NxPose \<lparr>rotation = ((0, - 1, 0), (1, 0, 0), (0, 0, 1)), translation = (100000, 200000, 300000)\<rparr>)]]\<rparr>)"
  using computeCalibration_units [of demo_executor demo_camera "[demo_pose]" True "Some demo_pose" None
      "''Hand''" demo_world]
  by (simp add: computeCalibration_def nx_simps bindM_def item_pose_def item_int_def item_double_def
      scale_translation_def inverse_isometry_def mat_transpose_def mat_vec_def vec_neg_def
      demo_defs all_names)

text \<open>
  The claim that fewer than 3 distinct robot poses make \<^verbatim>\<open>computeCalibration\<close> fail before
  the solver command is issued fails: with two equal poses the command is issued with
  both, and with an executor that succeeds the result is returned.
\<close>

theorem computeCalibration_counterexample:
  "computeCalibration demo_executor demo_camera [demo_pose, demo_pose] False None None [] demo_world =
     (Inr (\<lparr>rotation = ((0, 1, 0), (- 1, 0, 0), (0, 0, 1)), translation = (- (1 / 5), 1 / 10, - (3 / 10))\<rparr>,
           \<lparr>rotation = ((0, - 1, 0), (1, 0, 0), (0, 0, 1)), translation = (1 / 10, 1 / 5, 3 / 10)\<rparr>,
           7, 1 / 4),
      \<lparr>root = root demo_world,
       issued = [Execute cmdCalibrateHandEye
         [([Name itmSetup], NxString valFixed),
          ([Name itmTransformations, Idx 0],
             NxPose \<lparr>rotation = ((0, - 1, 0), (1, 0, 0), (0, 0, 1)), translation = (100000, 200000, 300000)\<rparr>),
          ([Name itmTransformations, Idx 1],
             NxPose \<lparr>rotation = ((0, - 1, 0), (1, 0, 0), (0, 0, 1)), translation = (100000, 200000, 300000)\<rparr>)]]\<rparr>)"
  by (simp add: computeCalibration_def nx_simps bindM_def item_pose_def item_int_def item_double_def
      scale_translation_def inverse_isometry_def mat_transpose_def mat_vec_def vec_neg_def
      demo_defs all_names)

theorem computeCalibration_no_validation_witness:
  "length [demo_pose] < 3
   \<and> computeCalibration demo_executor demo_camera [demo_pose] True None None [] demo_world =
     (Inr (\<lparr>rotation = ((0, 1, 0), (- 1, 0, 0), (0, 0, 1)), translation = (- (1 / 5), 1 / 10, - (3 / 10))\<rparr>,
           \<lparr>rotation = ((0, - 1, 0), (1, 0, 0), (0, 0, 1)), translation = (1 / 10, 1 / 5, 3 / 10)\<rparr>,
           7, 1 / 4),
      \<lparr>root = root demo_world,
       issued = [Execute cmdCalibrateHandEye
         [([Name itmSetup], NxString valMoving),
          ([Name itmTransformations, Idx 0],
             NxPose \<lparr>rotation = ((0, - 1, 0), (1, 0, 0), (0, 0, 1)), translation = (100000, 200000, 300000)\<rparr>)]]\<rparr>)
   \<and> computeCalibration failing_executor demo_camera [] True None None [] demo_world =
     (Inl NxError,
      \<lparr>root = root demo_world,
       issued = [Execute cmdCalibrateHandEye [([Name itmSetup], NxString valMoving)]]\<rparr>)"
  using computeCalibration_no_validation [of demo_executor demo_camera "[demo_pose]" True None None "[]" demo_world]
    computeCalibration_no_validation [of failing_executor demo_camera "[]" True None None "[]" demo_world]
  by (simp add: computeCalibration_def nx_simps bindM_def item_pose_def item_int_def item_double_def
      scale_translation_def inverse_isometry_def mat_transpose_def mat_vec_def vec_neg_def
      failing_executor_def demo_defs all_names)

section \<open>Detecting the calibration pattern\<close>

lemma bindM_InrE:
  assumes "bindM m f w = (Inr y, w'')"
  obtains x w' where "m w = (Inr x, w')" and "f x w' = (Inr y, w'')"
  using assms by (auto simp: bindM_def split: prod.splits sum.splits)

lemma thenM_InrE:
  assumes "thenM m n w = (Inr y, w'')"
  obtains x w' where "m w = (Inr x, w')" and "n w' = (Inr y, w'')"
  using assms unfolding thenM_def by (rule bindM_InrE)

lemma flexView_total: "\<exists>fv. flexView cam w = (Inr fv, w)"
  by (simp add: flexView_apply split: sum.splits)

lemmas command_names = cmdCapture_def cmdRetrieve_def cmdCollectPattern_def cmdDiscardPatterns_def
  cmdEstimatePatternPose_def

lemma discardCalibrationPatterns_issued:
  assumes "discardCalibrationPatterns ex w = (Inr u, w')"
  shows "issued w' = issued w @ [Execute cmdDiscardPatterns []]"
  using assms
  by (auto simp: discardCalibrationPatterns_def nx_simps bindM_def split: prod.splits sum.splits)

lemma flexViewD: "flexView cam w = (r, w') \<Longrightarrow> w' = w"
  by (auto simp: flexView_apply split: sum.splits)

lemma serialNumberD: "serialNumber cam w = (r, w') \<Longrightarrow> w' = w"
  by (auto simp: serialNumber_def nx_simps)

lemma setFlexViewD:
  "setFlexView cam v w = (r, w') \<Longrightarrow>
     issued w' = issued w @ [SetItem (ensenso_camera cam @ [Name itmParameters, Name itmCapture, Name itmFlexView]) (NxInt v)]"
  by (auto simp: setFlexView_def nx_simps)

lemma setProjectorD:
  "setProjector cam v w = (r, w') \<Longrightarrow>
     issued w' = issued w @ [SetItem (ensenso_camera cam @ [Name itmParameters, Name itmCapture, Name itmProjector]) (NxBool v)]"
  by (auto simp: setProjector_def nx_simps)

lemma setFrontLightD:
  "setFrontLight cam v w = (r, w') \<Longrightarrow>
     issued w' = issued w @ [SetItem (ensenso_camera cam @ [Name itmParameters, Name itmCapture, Name itmFrontLight]) (NxBool v)]"
  by (auto simp: setFrontLight_def nx_simps)

lemma whenM_setFlexViewD:
  "whenM c (setFlexView cam v) w = (r, w') \<Longrightarrow>
     issued w' = issued w @ (if c then [SetItem (ensenso_camera cam @ [Name itmParameters, Name itmCapture, Name itmFlexView]) (NxInt v)] else [])"
  by (auto simp: whenM_def setFlexView_def nx_simps split: if_splits)

lemma executeNxD:
  "executeNx ex c w = (r, w') \<Longrightarrow> issued w' = issued w @ [Execute (command_name c) (parameters c)]"
  by (auto simp: executeNx_apply split: prod.splits)

lemma retrieve_stereoD:
  "retrieve ex cam True timeout True False w = (Inr b, w') \<Longrightarrow>
     \<exists>params. issued w' = issued w @ [Execute cmdCapture params]"
  using retrieve_sound [of ex cam True timeout True False w b w'] by auto

lemma recordCalibrationPattern_issued:
  assumes run: "recordCalibrationPattern ex cam w = (Inr u, w')"
  shows "\<exists>evs. issued w' = issued w @ evs
           \<and> length (filter (is_command cmdCollectPattern) evs) = 1
           \<and> filter (is_command cmdDiscardPatterns) evs = []
           \<and> filter (is_command cmdEstimatePatternPose) evs = []"
  using run unfolding recordCalibrationPattern_def Let_def
  apply (elim bindM_InrE thenM_InrE)
  apply (drule flexViewD serialNumberD whenM_setFlexViewD setProjectorD setFrontLightD executeNxD retrieve_stereoD)+
  apply (auto simp: command_names setParam_def newCommand_def)
  done

lemma repeatM_record_issued:
  assumes "repeatM n (recordCalibrationPattern ex cam) w = (Inr u, w')"
  shows "\<exists>evs. issued w' = issued w @ evs
           \<and> length (filter (is_command cmdCollectPattern) evs) = n
           \<and> filter (is_command cmdDiscardPatterns) evs = []
           \<and> filter (is_command cmdEstimatePatternPose) evs = []"
  using assms
proof (induction n arbitrary: w)
  case 0
  then show ?case by (simp add: nx_simps)
next
  case (Suc n)
  from Suc.prems obtain x w1 where first: "recordCalibrationPattern ex cam w = (Inr x, w1)"
    and rest: "repeatM n (recordCalibrationPattern ex cam) w1 = (Inr u, w')"
    by (auto elim: thenM_InrE)
  from recordCalibrationPattern_issued [OF first] obtain evs1 where
    "issued w1 = issued w @ evs1" "length (filter (is_command cmdCollectPattern) evs1) = 1"
    "filter (is_command cmdDiscardPatterns) evs1 = []" "filter (is_command cmdEstimatePatternPose) evs1 = []"
    by blast
  moreover from Suc.IH [OF rest] obtain evs2 where
    "issued w' = issued w1 @ evs2" "length (filter (is_command cmdCollectPattern) evs2) = n"
    "filter (is_command cmdDiscardPatterns) evs2 = []" "filter (is_command cmdEstimatePatternPose) evs2 = []"
    by blast
  ultimately show ?case
    by (intro exI [of _ "evs1 @ evs2"]) simp
qed

lemma getWorkspaceCalibration_apply:
  "getWorkspaceCalibration cam w =
     (if fst (getWorkspaceCalibrationFrame cam w) = Inr [] then (Inr None, w)
      else case item_pose (root w) (ensenso_camera cam @ [Name itmLink]) of
             Inr link \<Rightarrow> (Inr (Some (scale_translation (1 / 1000) link)), w)
           | Inl e \<Rightarrow> (Inl e, w))"
  by (simp add: getWorkspaceCalibration_def getWorkspaceCalibrationFrame_apply nx_simps bindM_def
      split: sum.splits)

lemma compensate_workspace:
  assumes "(if ignore_calibration
      then bindM (getWorkspaceCalibration cam) (\<lambda>camera_pose.
             case camera_pose of
               Some c \<Rightarrow> returnM (times_isometry c scaled)
             | None \<Rightarrow> returnM scaled)
      else returnM scaled) w = (Inr result, w')"
  shows "w' = w \<and>
    (if ignore_calibration \<and> fst (getWorkspaceCalibrationFrame cam w) \<noteq> Inr []
     then \<exists>link. item_pose (root w) (ensenso_camera cam @ [Name itmLink]) = Inr link
            \<and> result = times_isometry (scale_translation (1 / 1000) link) scaled
     else result = scaled)"
  using assms
  by (auto simp: bindM_def getWorkspaceCalibration_apply nx_simps split: if_splits sum.splits)

lemma detectCalibrationPattern_sound:
  assumes run: "detectCalibrationPattern ex cam samples ignore_calibration w = (Inr result, w')"
  shows "\<exists>recorded fv before estimate after pose.
      issued w' = issued w @ Execute cmdDiscardPatterns [] # recorded
          @ (if 0 <s fv then [SetItem (ensenso_camera cam @ [Name itmParameters, Name itmCapture, Name itmFlexView]) (NxInt 0)] else [])
          @ [Execute cmdEstimatePatternPose []]
          @ (if 0 <s fv then [SetItem (ensenso_camera cam @ [Name itmParameters, Name itmCapture, Name itmFlexView]) (NxInt fv)] else [])
    \<and> length (filter (is_command cmdCollectPattern) recorded) = nat (sint samples)
    \<and> filter (is_command cmdDiscardPatterns) recorded = []
    \<and> filter (is_command cmdEstimatePatternPose) recorded = []
    \<and> ex cmdEstimatePatternPose [] before = (Inr estimate, after)
    \<and> root w' = (if 0 <s fv
                  then AList.update (ensenso_camera cam @ [Name itmParameters, Name itmCapture, Name itmFlexView]) (NxInt fv) after
                  else after)
    \<and> item_pose estimate [Name ''Patterns'', Idx 0, Name itmPatternPose] = Inr pose
    \<and> (if ignore_calibration \<and> fst (getWorkspaceCalibrationFrame cam w') \<noteq> Inr []
       then \<exists>link. item_pose (root w') (ensenso_camera cam @ [Name itmLink]) = Inr link
              \<and> result = times_isometry (scale_translation (1 / 1000) link) (scale_translation (1 / 1000) pose)
       else result = scale_translation (1 / 1000) pose)"
proof -
  let ?flex = "ensenso_camera cam @ [Name itmParameters, Name itmCapture, Name itmFlexView]"
  from run obtain u1 wa u2 wb fv wc u3 wd estimate we u4 wf pose wg where
    discard: "discardCalibrationPatterns ex w = (Inr u1, wa)"
    and recording: "repeatM (nat (sint samples)) (recordCalibrationPattern ex cam) wa = (Inr u2, wb)"
    and flex: "flexView cam wb = (Inr fv, wc)"
    and off: "whenM (0 <s fv) (setFlexView cam 0) wc = (Inr u3, wd)"
    and exec: "executeNx ex (newCommand cmdEstimatePatternPose) wd = (Inr estimate, we)"
    and restore: "whenM (0 <s fv) (setFlexView cam fv) we = (Inr u4, wf)"
    and pose: "getNxOf item_pose estimate [Name ''Patterns'', Idx 0, Name itmPatternPose] wf = (Inr pose, wg)"
    and last: "(if ignore_calibration
      then bindM (getWorkspaceCalibration cam) (\<lambda>camera_pose.
             case camera_pose of
               Some c \<Rightarrow> returnM (times_isometry c (scale_translation (1 / 1000) pose))
             | None \<Rightarrow> returnM (scale_translation (1 / 1000) pose))
      else returnM (scale_translation (1 / 1000) pose)) wg = (Inr result, w')"
    unfolding detectCalibrationPattern_def Let_def
    by (elim bindM_InrE thenM_InrE) (rule that; assumption)
  have a: "issued wa = issued w @ [Execute cmdDiscardPatterns []]"
    using discard by (rule discardCalibrationPatterns_issued)
  obtain recorded where b: "issued wb = issued wa @ recorded"
    and counts: "length (filter (is_command cmdCollectPattern) recorded) = nat (sint samples)"
      "filter (is_command cmdDiscardPatterns) recorded = []"
      "filter (is_command cmdEstimatePatternPose) recorded = []"
    using repeatM_record_issued [OF recording] by blast
  have c: "wc = wb" using flex by (rule flexViewD)
  have d: "issued wd = issued wc @ (if 0 <s fv then [SetItem ?flex (NxInt 0)] else [])"
    using off by (rule whenM_setFlexViewD)
  have e: "issued we = issued wd @ [Execute cmdEstimatePatternPose []]"
    and e': "ex cmdEstimatePatternPose [] (root wd) = (Inr estimate, root we)"
    using exec by (auto simp: executeNx_apply newCommand_def split: prod.splits)
  have f: "issued wf = issued we @ (if 0 <s fv then [SetItem ?flex (NxInt fv)] else [])"
    using restore by (rule whenM_setFlexViewD)
  have f': "root wf = (if 0 <s fv then AList.update ?flex (NxInt fv) (root we) else root we)"
    using restore by (auto simp: whenM_def setFlexView_def nx_simps split: if_splits)
  have g: "wg = wf" and p: "item_pose estimate [Name ''Patterns'', Idx 0, Name itmPatternPose] = Inr pose"
    using pose by (auto simp: nx_simps)
  have h: "w' = wg" and r: "if ignore_calibration \<and> fst (getWorkspaceCalibrationFrame cam wg) \<noteq> Inr []
     then \<exists>link. item_pose (root wg) (ensenso_camera cam @ [Name itmLink]) = Inr link
            \<and> result = times_isometry (scale_translation (1 / 1000) link) (scale_translation (1 / 1000) pose)
     else result = scale_translation (1 / 1000) pose"
    using compensate_workspace [OF last] by simp_all
  have "issued w' = issued w @ Execute cmdDiscardPatterns [] # recorded
          @ (if 0 <s fv then [SetItem ?flex (NxInt 0)] else [])
          @ [Execute cmdEstimatePatternPose []]
          @ (if 0 <s fv then [SetItem ?flex (NxInt fv)] else [])"
    using a b c d e f g h by simp
  moreover have "root w' = (if 0 <s fv then AList.update ?flex (NxInt fv) (root we) else root we)"
    using f' g h by simp
  moreover note counts e' p
  moreover have "if ignore_calibration \<and> fst (getWorkspaceCalibrationFrame cam w') \<noteq> Inr []
       then \<exists>link. item_pose (root w') (ensenso_camera cam @ [Name itmLink]) = Inr link
              \<and> result = times_isometry (scale_translation (1 / 1000) link) (scale_translation (1 / 1000) pose)
       else result = scale_translation (1 / 1000) pose"
    using r h by simp
  ultimately show ?thesis by blast
qed

lemma detectCalibrationPattern_returns:
  assumes recorded: "thenM (discardCalibrationPatterns ex)
             (repeatM (nat (sint samples)) (recordCalibrationPattern ex cam)) w = (Inr u, w1)"
    and flex: "flexView cam w1 = (Inr fv, w1)"
    and estimate: "ex cmdEstimatePatternPose []
             (if 0 <s fv
              then AList.update (ensenso_camera cam @ [Name itmParameters, Name itmCapture, Name itmFlexView])
                     (NxInt 0) (root w1)
              else root w1) = (Inr estimate, after)"
    and pose: "item_pose estimate [Name ''Patterns'', Idx 0, Name itmPatternPose] = Inr pose"
    and final: "final = (if 0 <s fv
              then AList.update (ensenso_camera cam @ [Name itmParameters, Name itmCapture, Name itmFlexView])
                     (NxInt fv) after
              else after)"
    and link: "ignore_calibration \<and> fst (asString final (ensenso_camera cam @ [Name itmLink, Name itmTarget])) \<noteq> []
             \<longrightarrow> item_pose final (ensenso_camera cam @ [Name itmLink]) = Inr link"
  shows "fst (detectCalibrationPattern ex cam samples ignore_calibration w) =
     Inr (if ignore_calibration \<and> fst (asString final (ensenso_camera cam @ [Name itmLink, Name itmTarget])) \<noteq> []
          then times_isometry (scale_translation (1 / 1000) link) (scale_translation (1 / 1000) pose)
          else scale_translation (1 / 1000) pose)
   \<and> root (snd (detectCalibrationPattern ex cam samples ignore_calibration w)) = final"
proof -
  have split: "detectCalibrationPattern ex cam samples ignore_calibration =
     bindM (thenM (discardCalibrationPatterns ex)
             (repeatM (nat (sint samples)) (recordCalibrationPattern ex cam))) (\<lambda>_.
     (bindM (flexView cam) (\<lambda>flex_view.
      thenM (whenM (0 <s flex_view) (setFlexView cam 0))
     (bindM (executeNx ex (newCommand cmdEstimatePatternPose)) (\<lambda>estimate.
      thenM (whenM (0 <s flex_view) (setFlexView cam flex_view))
     (bindM (getNxOf item_pose estimate [Name ''Patterns'', Idx 0, Name itmPatternPose]) (\<lambda>pose.
      let result = scale_translation (1 / 1000) pose in
      if ignore_calibration
      then bindM (getWorkspaceCalibration cam) (\<lambda>camera_pose.
             case camera_pose of
               Some c \<Rightarrow> returnM (times_isometry c result)
             | None \<Rightarrow> returnM result)
      else returnM result)))))))"
    by (simp add: detectCalibrationPattern_def thenM_def bindM_assoc)
  show ?thesis
  proof (cases "0 <s fv")
    case True
    then show ?thesis
      unfolding split using recorded flex estimate pose final link
      by (simp add: bindM_def setFlexView_def getWorkspaceCalibration_apply getWorkspaceCalibrationFrame_apply
          nx_simps)
  next
    case False
    then show ?thesis
      unfolding split using recorded flex estimate pose final link
      by (simp add: bindM_def setFlexView_def getWorkspaceCalibration_apply getWorkspaceCalibrationFrame_apply
          nx_simps)
  qed
qed

text \<open>
  C6: whenever \<^verbatim>\<open>detectCalibrationPattern\<close> returns a pose, it has first executed
  \<^verbatim>\<open>DiscardPatterns\<close>, then recorded patterns with exactly \<open>samples\<close> executions of
  \<^verbatim>\<open>CollectPattern\<close> (none when \<open>samples\<close> is not positive), then executed
  \<^verbatim>\<open>EstimatePatternPose\<close> once, with FlexView set to 0 before and restored after when its
  level was positive. With \<open>pose\<close> the pattern pose of the estimate and its translation
  multiplied by 1/1000, the result is that pose when \<open>ignore_calibration\<close> is false or the
  frame name is empty, and otherwise the link transform (translation multiplied by
  1/1000) times that pose. And it does return that pose when discarding and recording
  succeed, the estimate command succeeds and holds a pattern pose, and the link transform
  can be read where it is needed.
\<close>

theorem detectCalibrationPattern_pose:
  "(\<forall>result w'.
      detectCalibrationPattern ex cam samples ignore_calibration w = (Inr result, w') \<longrightarrow>
      (\<exists>recorded fv before estimate after pose.
         issued w' = issued w @ Execute cmdDiscardPatterns [] # recorded
             @ (if 0 <s fv then [SetItem (ensenso_camera cam @ [Name itmParameters, Name itmCapture, Name itmFlexView]) (NxInt 0)] else [])
             @ [Execute cmdEstimatePatternPose []]
             @ (if 0 <s fv then [SetItem (ensenso_camera cam @ [Name itmParameters, Name itmCapture, Name itmFlexView]) (NxInt fv)] else [])
       \<and> length (filter (is_command cmdCollectPattern) recorded) = nat (sint samples)
       \<and> filter (is_command cmdDiscardPatterns) recorded = []
       \<and> filter (is_command cmdEstimatePatternPose) recorded = []
       \<and> ex cmdEstimatePatternPose [] before = (Inr estimate, after)
       \<and> root w' = (if 0 <s fv
                     then AList.update (ensenso_camera cam @ [Name itmParameters, Name itmCapture, Name itmFlexView]) (NxInt fv) after
                     else after)
       \<and> item_pose estimate [Name ''Patterns'', Idx 0, Name itmPatternPose] = Inr pose
       \<and> (if ignore_calibration \<and> fst (getWorkspaceCalibrationFrame cam w') \<noteq> Inr []
          then \<exists>link. item_pose (root w') (ensenso_camera cam @ [Name itmLink]) = Inr link
                 \<and> result = times_isometry (scale_translation (1 / 1000) link) (scale_translation (1 / 1000) pose)
          else result = scale_translation (1 / 1000) pose)))
   \<and> (\<forall>u w1 fv estimate after pose final link.
        thenM (discardCalibrationPatterns ex)
          (repeatM (nat (sint samples)) (recordCalibrationPattern ex cam)) w = (Inr u, w1)
      \<and> flexView cam w1 = (Inr fv, w1)
      \<and> ex cmdEstimatePatternPose []
            (if 0 <s fv
             then AList.update (ensenso_camera cam @ [Name itmParameters, Name itmCapture, Name itmFlexView])
                    (NxInt 0) (root w1)
             else root w1) = (Inr estimate, after)
      \<and> item_pose estimate [Name ''Patterns'', Idx 0, Name itmPatternPose] = Inr pose
      \<and> final = (if 0 <s fv
             then AList.update (ensenso_camera cam @ [Name itmParameters, Name itmCapture, Name itmFlexView])
                    (NxInt fv) after
             else after)
      \<and> (ignore_calibration
            \<and> fst (asString final (ensenso_camera cam @ [Name itmLink, Name itmTarget])) \<noteq> []
           \<longrightarrow> item_pose final (ensenso_camera cam @ [Name itmLink]) = Inr link)
      \<longrightarrow>
        fst (detectCalibrationPattern ex cam samples ignore_calibration w) =
          Inr (if ignore_calibration
                 \<and> fst (asString final (ensenso_camera cam @ [Name itmLink, Name itmTarget])) \<noteq> []
               then times_isometry (scale_translation (1 / 1000) link) (scale_translation (1 / 1000) pose)
               else scale_translation (1 / 1000) pose)
      \<and> root (snd (detectCalibrationPattern ex cam samples ignore_calibration w)) = final)"
proof (intro conjI allI impI)
  fix result w'
  assume "detectCalibrationPattern ex cam samples ignore_calibration w = (Inr result, w')"
  then show "\<exists>recorded fv before estimate after pose.
         issued w' = issued w @ Execute cmdDiscardPatterns [] # recorded
             @ (if 0 <s fv then [SetItem (ensenso_camera cam @ [Name itmParameters, Name itmCapture, Name itmFlexView]) (NxInt 0)] else [])
             @ [Execute cmdEstimatePatternPose []]
             @ (if 0 <s fv then [SetItem (ensenso_camera cam @ [Name itmParameters, Name itmCapture, Name itmFlexView]) (NxInt fv)] else [])
       \<and> length (filter (is_command cmdCollectPattern) recorded) = nat (sint samples)
       \<and> filter (is_command cmdDiscardPatterns) recorded = []
       \<and> filter (is_command cmdEstimatePatternPose) recorded = []
       \<and> ex cmdEstimatePatternPose [] before = (Inr estimate, after)
       \<and> root w' = (if 0 <s fv
                     then AList.update (ensenso_camera cam @ [Name itmParameters, Name itmCapture, Name itmFlexView]) (NxInt fv) after
                     else after)
       \<and> item_pose estimate [Name ''Patterns'', Idx 0, Name itmPatternPose] = Inr pose
       \<and> (if ignore_calibration \<and> fst (getWorkspaceCalibrationFrame cam w') \<noteq> Inr []
          then \<exists>link. item_pose (root w') (ensenso_camera cam @ [Name itmLink]) = Inr link
                 \<and> result = times_isometry (scale_translation (1 / 1000) link) (scale_translation (1 / 1000) pose)
          else result = scale_translation (1 / 1000) pose)"
    by (rule detectCalibrationPattern_sound)
next
  fix u w1 fv estimate after pose final link
  assume h: "thenM (discardCalibrationPatterns ex)
          (repeatM (nat (sint samples)) (recordCalibrationPattern ex cam)) w = (Inr u, w1)
      \<and> flexView cam w1 = (Inr fv, w1)
      \<and> ex cmdEstimatePatternPose []
            (if 0 <s fv
             then AList.update (ensenso_camera cam @ [Name itmParameters, Name itmCapture, Name itmFlexView])
                    (NxInt 0) (root w1)
             else root w1) = (Inr estimate, after)
      \<and> item_pose estimate [Name ''Patterns'', Idx 0, Name itmPatternPose] = Inr pose
      \<and> final = (if 0 <s fv
             then AList.update (ensenso_camera cam @ [Name itmParameters, Name itmCapture, Name itmFlexView])
                    (NxInt fv) after
             else after)
      \<and> (ignore_calibration
            \<and> fst (asString final (ensenso_camera cam @ [Name itmLink, Name itmTarget])) \<noteq> []
           \<longrightarrow> item_pose final (ensenso_camera cam @ [Name itmLink]) = Inr link)"
  have "fst (detectCalibrationPattern ex cam samples ignore_calibration w) =
          Inr (if ignore_calibration
                 \<and> fst (asString final (ensenso_camera cam @ [Name itmLink, Name itmTarget])) \<noteq> []
               then times_isometry (scale_translation (1 / 1000) link) (scale_translation (1 / 1000) pose)
               else scale_translation (1 / 1000) pose)
      \<and> root (snd (detectCalibrationPattern ex cam samples ignore_calibration w)) = final"
    by (rule detectCalibrationPattern_returns [where u = u and ?w1.0 = w1 and fv = fv
          and estimate = estimate and after = after]) (use h in blast)+
  then show "fst (detectCalibrationPattern ex cam samples ignore_calibration w) =
          Inr (if ignore_calibration
                 \<and> fst (asString final (ensenso_camera cam @ [Name itmLink, Name itmTarget])) \<noteq> []
               then times_isometry (scale_translation (1 / 1000) link) (scale_translation (1 / 1000) pose)
               else scale_translation (1 / 1000) pose)"
    and "root (snd (detectCalibrationPattern ex cam samples ignore_calibration w)) = final"
    by blast+
qed

lemma detect_demo:
  "detectCalibrationPattern demo_executor demo_camera 2 ignore_calibration demo_world =
    (Inr (if ignore_calibration
          then \<lparr>rotation = ((- 1, 0, 0), (0, - 1, 0), (0, 0, 1)), translation = (- (1 / 10), 3 / 10, 3 / 5)\<rparr>
          else \<lparr>rotation = ((0, - 1, 0), (1, 0, 0), (0, 0, 1)), translation = (1 / 10, 1 / 5, 3 / 10)\<rparr>),
     \<lparr>root = root demo_world @
          [([Name ''stereo'', Name itmParameters, Name itmCapture, Name itmProjector], NxBool True),
           ([Name ''stereo'', Name itmParameters, Name itmCapture, Name itmFrontLight], NxBool False)],
      issued = Execute cmdDiscardPatterns [] #
          concat (replicate 2
          [SetItem [Name ''stereo'', Name itmParameters, Name itmCapture, Name itmFlexView] (NxInt 0),
           SetItem [Name ''stereo'', Name itmParameters, Name itmCapture, Name itmProjector] (NxBool False),
           SetItem [Name ''stereo'', Name itmParameters, Name itmCapture, Name itmFrontLight] (NxBool True),
           Execute cmdCapture [([Name itmTimeout], NxInt 1500), ([Name itmCameras, Idx 0], NxString ''S1'')],
           SetItem [Name ''stereo'', Name itmParameters, Name itmCapture, Name itmFrontLight] (NxBool False),
           SetItem [Name ''stereo'', Name itmParameters, Name itmCapture, Name itmProjector] (NxBool True),
           Execute cmdCollectPattern [([Name itmCameras], NxString ''S1''), ([Name itmDecodeData], NxBool True)],
           SetItem [Name ''stereo'', Name itmParameters, Name itmCapture, Name itmFlexView] (NxInt 2)])
          @ [SetItem [Name ''stereo'', Name itmParameters, Name itmCapture, Name itmFlexView] (NxInt 0),
             Execute cmdEstimatePatternPose [],
             SetItem [Name ''stereo'', Name itmParameters, Name itmCapture, Name itmFlexView] (NxInt 2)]\<rparr>)"
  by (simp add: detectCalibrationPattern_def discardCalibrationPatterns_def recordCalibrationPattern_def
      getWorkspaceCalibration_apply getWorkspaceCalibrationFrame_apply asString_def
      flexView_apply setFlexView_def setProjector_def setFrontLight_def cam_simps bindM_def
      item_int_def item_string_def item_bool_def item_pose_def
      scale_translation_def times_isometry_def mat_mul_def mat_transpose_def mat_vec_def vec_add_def
      word_sless_alt numeral_2_eq_2 demo_defs all_names)

theorem detectCalibrationPattern_pose_witness:
  "fst (detectCalibrationPattern demo_executor demo_camera 2 False demo_world) =
     Inr \<lparr>rotation = ((0, - 1, 0), (1, 0, 0), (0, 0, 1)), translation = (1 / 10, 1 / 5, 3 / 10)\<rparr>
   \<and> fst (detectCalibrationPattern demo_executor demo_camera 2 True demo_world) =
     Inr \<lparr>rotation = ((- 1, 0, 0), (0, - 1, 0), (0, 0, 1)), translation = (- (1 / 10), 3 / 10, 3 / 5)\<rparr>
   \<and> hd (issued (snd (detectCalibrationPattern demo_executor demo_camera 2 False demo_world))) =
     Execute cmdDiscardPatterns []
   \<and> length (filter (is_command cmdCollectPattern)
        (issued (snd (detectCalibrationPattern demo_executor demo_camera 2 False demo_world)))) = 2
   \<and> item_pose demo_result [Name ''Patterns'', Idx 0, Name itmPatternPose] =
     Inr \<lparr>rotation = ((0, - 1, 0), (1, 0, 0), (0, 0, 1)), translation = (100, 200, 300)\<rparr>"
  using detectCalibrationPattern_pose
      [of demo_executor demo_camera 2 False demo_world, THEN conjunct1, rule_format, OF detect_demo]
    detectCalibrationPattern_pose
      [of demo_executor demo_camera 2 True demo_world, THEN conjunct1, rule_format, OF detect_demo]
  by (simp add: detect_demo item_pose_def demo_result_def demo_pose_def command_names all_names
      numeral_2_eq_2)

end
